theory Spec2Isabelle
  imports Complex_Main "HOL-Library.Word" "HOL-Library.Signed_Division"
begin

section \<open>The ESP32 DAC synthesizer: data model\<close>

text \<open>
  The repository holds two Arduino sketches for the same synthesizer: the switch edition
  (\<^verbatim>\<open>esp32_synth.ino\<close>: octave switch, three waveform buttons) and the rotary menu
  edition (one encoder drives a menu, and a ratchet gate chops the note). Both declare the
  same synthesis variables and the same functions \<^verbatim>\<open>generateWaveforms\<close>,
  \<^verbatim>\<open>setFrequency\<close> and \<^verbatim>\<open>stopNote\<close>; these are modelled once, over an
  extensible record. Functions whose bodies differ carry the suffix \<open>_menu\<close> for the
  menu edition.

  C's \<^verbatim>\<open>int\<close> is modelled by \<open>int\<close>; the division and remainder of C truncate
  towards zero and are written \<open>sdiv\<close> and \<open>smod\<close>. \<^verbatim>\<open>unsigned long\<close> is a
  \<open>32 word\<close> and \<^verbatim>\<open>uint8_t\<close> an \<open>8 word\<close>, so their arithmetic wraps as on
  the chip. What C leaves undefined or what traps on the chip is a \<open>fault\<close>.
\<close>

datatype fault = DivideByZero | OutOfBounds | Overflow

definition SAMPLES :: int where
  "SAMPLES = 256"

definition RATCHET_BASE_HZ :: int where
  "RATCHET_BASE_HZ = 8"

text \<open>
  The literals of \<^verbatim>\<open>NOTE_FREQS_OCT4\<close> are stored as binary32 floats. Each of them
  lies in \<open>[256, 512)\<close>, where a binary32 float has 15 fractional bits, so the stored value
  is the literal rounded to the nearest multiple of \<open>2^-15\<close> (none of the twelve is a tie).
  Floats are modelled by the rationals they denote.
\<close>

definition float32_oct4 :: "rat \<Rightarrow> rat" where
  "float32_oct4 q = of_int (round (q * 32768)) / 32768"

definition NOTE_FREQS_OCT4 :: "rat list" where
  "NOTE_FREQS_OCT4 = map float32_oct4
     [261.63, 277.18, 293.66, 311.13, 329.63, 349.23,
      369.99, 392.00, 415.30, 440.00, 466.16, 493.88]"

text \<open>The cast \<^verbatim>\<open>(int)x\<close> of a floating-point value truncates towards zero.\<close>

definition c_trunc :: "'a::floor_ceiling \<Rightarrow> int" where
  "c_trunc x = (if 0 \<le> x then \<lfloor>x\<rfloor> else \<lceil>x\<rceil>)"

datatype WaveType = SQUARE | TRIANGLE | SINE

text \<open>
  The synthesis state shared by both sketches. \<open>currentWaveform\<close> is the pointer to one of the
  three tables, modelled by the tag of the table it points to. \<open>timerAlarm\<close> and
  \<open>timerAlarmEnabled\<close> are the alarm value (in microseconds, the timer runs at 1 MHz) and the
  enable bit of the hardware timer; \<open>dac\<close> lists the values written to the DAC, the latest
  first. \<open>lastEncoderCLK\<close> is \<open>True\<close> for \<^verbatim>\<open>HIGH\<close>.
\<close>

record synth =
  squareWave :: "8 word list"
  triangleWave :: "8 word list"
  sineWave :: "8 word list"
  currentWaveform :: WaveType
  currentSample :: int
  currentFreq :: int
  volume :: "8 word"
  selectedWaveform :: WaveType
  isHighOctave :: bool
  currentNote :: int
  lastEncoderCLK :: bool
  timerAlarm :: "64 word"
  timerAlarmEnabled :: bool
  dac :: "8 word list"

text \<open>The switch edition adds the encoder position and the debounce times of its buttons.\<close>

record switch_synth = synth +
  encoderPos :: int
  lastDebounceTime :: "32 word list"

definition debounceDelay :: "32 word" where
  "debounceDelay = 50"

text \<open>The table \<open>currentWaveform\<close> points to.\<close>

definition waveform_table :: "'a synth_scheme \<Rightarrow> 8 word list" where
  "waveform_table s =
     (case currentWaveform s of
        SQUARE \<Rightarrow> squareWave s
      | TRIANGLE \<Rightarrow> triangleWave s
      | SINE \<Rightarrow> sineWave s)"

section \<open>Timer interrupt (switch edition)\<close>

text \<open>
  Reading \<^verbatim>\<open>currentWaveform[currentSample]\<close> outside the 256 entries of the array is
  undefined in C: the model faults there.
\<close>

definition onTimer :: "'a synth_scheme \<Rightarrow> fault + 'a synth_scheme" where
  "onTimer s =
     (if currentFreq s > 0 then
        (if 0 \<le> currentSample s \<and> currentSample s < SAMPLES then
           let scaledValue = (word_of_int
                 ((uint (waveform_table s ! nat (currentSample s)) * uint (volume s)) sdiv 255)
                 :: 8 word)
           in Inr (s\<lparr>dac := scaledValue # dac s,
                     currentSample := (currentSample s + 1) smod SAMPLES\<rparr>)
         else Inl OutOfBounds)
      else Inr (s\<lparr>dac := 0 # dac s\<rparr>))"

section \<open>Waveform generation\<close>

text \<open>
  The sine sample is computed in double precision in the source; the model computes it over
  the reals. The cast to \<^verbatim>\<open>uint8_t\<close> truncates towards zero.
\<close>

definition sine_sample :: "int \<Rightarrow> 8 word" where
  "sine_sample i =
     word_of_int (c_trunc (127.5 + 127.5 * sin (2.0 * pi * real_of_int i / real_of_int SAMPLES)))"

definition triangle_sample :: "int \<Rightarrow> 8 word" where
  "triangle_sample i =
     (if i < SAMPLES sdiv 2 then word_of_int (i * 512 sdiv SAMPLES)
      else word_of_int (255 - ((i - SAMPLES sdiv 2) * 512 sdiv SAMPLES)))"

definition square_sample :: "int \<Rightarrow> 8 word" where
  "square_sample i = (if i < SAMPLES sdiv 2 then 255 else 0)"

text \<open>
  Each of the three loops runs \<open>i\<close> from 0 to \<open>SAMPLES - 1\<close> and stores entry \<open>i\<close> of its
  table: \<open>fill_table f\<close> is such a loop, storing \<open>f i\<close>.
\<close>

definition fill_table :: "(int \<Rightarrow> 8 word) \<Rightarrow> 8 word list \<Rightarrow> 8 word list" where
  "fill_table f xs = fold (\<lambda>i ys. ys[i := f (int i)]) [0..<nat SAMPLES] xs"

definition generateWaveforms :: "'a synth_scheme \<Rightarrow> 'a synth_scheme" where
  "generateWaveforms s =
     (let s1 = s\<lparr>sineWave := fill_table sine_sample (sineWave s)\<rparr>;
          s2 = s1\<lparr>triangleWave := fill_table triangle_sample (triangleWave s1)\<rparr>
      in s2\<lparr>squareWave := fill_table square_sample (squareWave s2)\<rparr>)"

section \<open>Frequency control\<close>

text \<open>
  \<^verbatim>\<open>setFrequency\<close>: the cast \<^verbatim>\<open>(int)freq\<close> is undefined when the value does not
  fit an \<^verbatim>\<open>int\<close>, the product \<^verbatim>\<open>currentFreq * SAMPLES\<close> is undefined when it
  overflows, and the division traps when that product is zero. The timer is disabled, written
  and enabled again.
\<close>

definition setFrequency :: "rat \<Rightarrow> 'a synth_scheme \<Rightarrow> fault + 'a synth_scheme" where
  "setFrequency freq s =
     (if freq \<le> 0 then Inr (s\<lparr>currentFreq := 0\<rparr>)
      else if 2 ^ 31 \<le> freq then Inl Overflow
      else
        let s1 = s\<lparr>currentFreq := c_trunc freq\<rparr>;
            s2 = s1\<lparr>timerAlarmEnabled := False\<rparr>
        in if 2 ^ 31 \<le> currentFreq s2 * SAMPLES then Inl Overflow
           else if currentFreq s2 * SAMPLES = 0 then Inl DivideByZero
           else
             let s3 = s2\<lparr>timerAlarm := word_of_int (1000000 sdiv (currentFreq s2 * SAMPLES))\<rparr>
             in Inr (s3\<lparr>timerAlarmEnabled := True\<rparr>))"

definition stopNote :: "'a synth_scheme \<Rightarrow> 'a synth_scheme" where
  "stopNote s = s\<lparr>currentFreq := 0, currentNote := -1, dac := 0 # dac s\<rparr>"

text \<open>
  \<^verbatim>\<open>playNote\<close> of the switch edition. The product \<^verbatim>\<open>baseFreq * 2.0\<close> is exact
  in floating point.
\<close>

definition playNote :: "int \<Rightarrow> 'a synth_scheme \<Rightarrow> fault + 'a synth_scheme" where
  "playNote noteIndex s =
     (if noteIndex < 0 \<or> noteIndex \<ge> 12 then Inr (stopNote s)
      else
        let baseFreq = NOTE_FREQS_OCT4 ! nat noteIndex;
            freq = (if isHighOctave s then baseFreq * 2 else baseFreq)
        in case setFrequency freq s of
             Inl e \<Rightarrow> Inl e
           | Inr s' \<Rightarrow> Inr (s'\<lparr>currentNote := noteIndex\<rparr>))"

text \<open>
  The frequency that \<^verbatim>\<open>playNote\<close> resolves for a note index and an octave flag and passes
  to \<^verbatim>\<open>setFrequency\<close> (its locals \<^verbatim>\<open>baseFreq\<close> and \<^verbatim>\<open>freq\<close>).
\<close>

definition note_freq :: "int \<Rightarrow> bool \<Rightarrow> rat" where
  "note_freq noteIndex hi =
     (let baseFreq = NOTE_FREQS_OCT4 ! nat noteIndex in if hi then baseFreq * 2 else baseFreq)"

section \<open>Inputs\<close>

text \<open>
  What one pass of \<^verbatim>\<open>loop\<close> reads from the pins: \<open>True\<close> is \<^verbatim>\<open>HIGH\<close>.
  \<open>KEY_PINS p i\<close> is the level read at \<^verbatim>\<open>KEY_PINS[i]\<close>. Every pin is read at most
  once in a pass. Writes to the LEDs, to the 7-segment display and to the serial port are
  never read back by the sketches and are left out; \<^verbatim>\<open>delay\<close> only lets time pass.
\<close>

record pins =
  KEY_PINS :: "int \<Rightarrow> bool"
  ENCODER_CLK :: bool
  ENCODER_DT :: bool

text \<open>The switch edition calls \<^verbatim>\<open>millis()\<close> once in a pass, in \<^verbatim>\<open>readWaveformButtons\<close>.\<close>

record switch_pins = pins +
  OCTAVE_SWITCH :: bool
  BTN_SQUARE :: bool
  BTN_TRIANGLE :: bool
  BTN_SINE :: bool
  millis :: "32 word"

section \<open>Keyboard scanning\<close>

text \<open>
  The \<^verbatim>\<open>for\<close> loop of \<^verbatim>\<open>scanKeyboard\<close> over the remaining key indices; it
  returns \<^verbatim>\<open>anyKeyPressed\<close> and leaves at the first pressed key. The two editions
  differ in the \<^verbatim>\<open>playNote\<close> they call, which is the parameter \<open>play\<close>.
\<close>

fun scanKeyboard_loop ::
  "(int \<Rightarrow> 'a synth_scheme \<Rightarrow> fault + 'a synth_scheme) \<Rightarrow> (int \<Rightarrow> bool) \<Rightarrow> int list \<Rightarrow>
   'a synth_scheme \<Rightarrow> fault + (bool \<times> 'a synth_scheme)" where
  "scanKeyboard_loop play key [] s = Inr (False, s)"
| "scanKeyboard_loop play key (i # rest) s =
     (if key i then
        (if currentNote s \<noteq> i then
           (case play i s of Inl e \<Rightarrow> Inl e | Inr s' \<Rightarrow> Inr (True, s'))
         else Inr (True, s))
      else scanKeyboard_loop play key rest s)"

definition scanKeyboard_with ::
  "(int \<Rightarrow> 'a synth_scheme \<Rightarrow> fault + 'a synth_scheme) \<Rightarrow> (int \<Rightarrow> bool) \<Rightarrow>
   'a synth_scheme \<Rightarrow> fault + 'a synth_scheme" where
  "scanKeyboard_with play key s =
     (case scanKeyboard_loop play key [0, 1, 2, 3, 4, 5, 6, 7, 8, 9, 10, 11] s of
        Inl e \<Rightarrow> Inl e
      | Inr (anyKeyPressed, s') \<Rightarrow>
          if \<not> anyKeyPressed \<and> currentNote s' \<noteq> -1 then Inr (stopNote s') else Inr s')"

definition scanKeyboard :: "'p pins_scheme \<Rightarrow> 'a synth_scheme \<Rightarrow> fault + 'a synth_scheme" where
  "scanKeyboard p s = scanKeyboard_with playNote (KEY_PINS p) s"

section \<open>Switch edition: encoder, waveform buttons, main loop\<close>

text \<open>
  \<open>encoderPos\<close> starts at 50 and is clamped to \<open>0..100\<close> after each step, so the
  increments do not overflow.
\<close>

definition readEncoder :: "'p pins_scheme \<Rightarrow> 'a switch_synth_scheme \<Rightarrow> 'a switch_synth_scheme" where
  "readEncoder p s =
     (let currentCLK = ENCODER_CLK p;
          s1 = (if currentCLK \<noteq> lastEncoderCLK s \<and> currentCLK = False then
                  let s2 = (if ENCODER_DT p = True then
                              let a = s\<lparr>encoderPos := encoderPos s + 1\<rparr>
                              in if encoderPos a > 100 then a\<lparr>encoderPos := 100\<rparr> else a
                            else
                              let a = s\<lparr>encoderPos := encoderPos s - 1\<rparr>
                              in if encoderPos a < 0 then a\<lparr>encoderPos := 0\<rparr> else a)
                  in s2\<lparr>volume := word_of_int ((encoderPos s2 * 255) sdiv 100)\<rparr>
                else s)
      in s1\<lparr>lastEncoderCLK := currentCLK\<rparr>)"

definition setWaveform :: "WaveType \<Rightarrow> 'a synth_scheme \<Rightarrow> 'a synth_scheme" where
  "setWaveform type s =
     (let s1 = s\<lparr>selectedWaveform := type\<rparr>
      in case type of
           SQUARE \<Rightarrow> s1\<lparr>currentWaveform := SQUARE\<rparr>
         | TRIANGLE \<Rightarrow> s1\<lparr>currentWaveform := TRIANGLE\<rparr>
         | SINE \<Rightarrow> s1\<lparr>currentWaveform := SINE\<rparr>)"

text \<open>One of the three debounced button checks: button level \<open>btn\<close>, debounce slot \<open>k\<close>.\<close>

definition checkButton ::
  "bool \<Rightarrow> nat \<Rightarrow> WaveType \<Rightarrow> 32 word \<Rightarrow> 'a switch_synth_scheme \<Rightarrow> 'a switch_synth_scheme" where
  "checkButton btn k type currentTime s =
     (if btn = False \<and> currentTime - lastDebounceTime s ! k > debounceDelay then
        (setWaveform type s)\<lparr>lastDebounceTime := (lastDebounceTime s)[k := currentTime]\<rparr>
      else s)"

definition readWaveformButtons ::
  "'p switch_pins_scheme \<Rightarrow> 'a switch_synth_scheme \<Rightarrow> 'a switch_synth_scheme" where
  "readWaveformButtons p s =
     (let currentTime = millis p;
          s1 = checkButton (BTN_SQUARE p) 0 SQUARE currentTime s;
          s2 = checkButton (BTN_TRIANGLE p) 1 TRIANGLE currentTime s1
      in checkButton (BTN_SINE p) 2 SINE currentTime s2)"

definition loop :: "'p switch_pins_scheme \<Rightarrow> 'a switch_synth_scheme \<Rightarrow> fault + 'a switch_synth_scheme" where
  "loop p s =
     (let s1 = s\<lparr>isHighOctave := (OCTAVE_SWITCH p = False)\<rparr>;
          s2 = readEncoder p s1;
          s3 = readWaveformButtons p s2
      in scanKeyboard p s3)"

text \<open>
  The globals as their initialisers leave them (arrays are zero-filled), and \<^verbatim>\<open>setup()\<close>
  (named \<open>setup_synth\<close> here): the tables are generated, the timer alarm is set to 100 and enabled, the sine is selected.
\<close>

definition globals :: switch_synth where
  "globals = \<lparr>squareWave = replicate 256 0, triangleWave = replicate 256 0,
     sineWave = replicate 256 0, currentWaveform = SINE, currentSample = 0, currentFreq = 0,
     volume = 128, selectedWaveform = SINE, isHighOctave = False, currentNote = -1,
     lastEncoderCLK = True, timerAlarm = 0, timerAlarmEnabled = False, dac = [],
     encoderPos = 50, lastDebounceTime = [0, 0, 0]\<rparr>"

definition setup_synth :: switch_synth where
  "setup_synth = setWaveform SINE
     ((generateWaveforms globals)\<lparr>timerAlarm := 100, timerAlarmEnabled := True\<rparr>)"

section \<open>Menu edition: state and inputs\<close>

datatype UIMode = REST | MENU_BROWSE | SETTING_ADJUST

datatype MenuScreen = MENU_WAVEFORM | MENU_OCTAVE | MENU_CHOPPINESS

record menu_synth = synth +
  currentMode :: UIMode
  currentMenu :: MenuScreen
  choppiness :: int
  lastRatchetToggle :: "32 word"
  ratchetOn :: bool
  encoderValue :: int
  lastButtonState :: bool
  lastButtonPress :: "32 word"

definition buttonDebounce :: "32 word" where
  "buttonDebounce = 200"

text \<open>
  A pass of the menu edition's \<^verbatim>\<open>loop\<close> may call \<^verbatim>\<open>millis()\<close> four times:
  in the \<^verbatim>\<open>playNote\<close> that \<^verbatim>\<open>adjustCurrentSetting\<close> calls, in the condition of
  \<^verbatim>\<open>readEncoderButton\<close>, in its assignment to \<^verbatim>\<open>lastButtonPress\<close>, and in the
  \<^verbatim>\<open>playNote\<close> that \<^verbatim>\<open>scanKeyboard\<close> calls. Each call has its own reading.
\<close>

record menu_pins = pins +
  ENCODER_SW :: bool
  millis_adjust :: "32 word"
  millis_button :: "32 word"
  millis_press :: "32 word"
  millis_scan :: "32 word"

text \<open>The numeric values of the enumerators, and the casts back from \<^verbatim>\<open>int\<close>.\<close>

fun WaveType_int :: "WaveType \<Rightarrow> int" where
  "WaveType_int SQUARE = 0"
| "WaveType_int TRIANGLE = 1"
| "WaveType_int SINE = 2"

definition int_WaveType :: "int \<Rightarrow> WaveType" where
  "int_WaveType n = (if n = 0 then SQUARE else if n = 1 then TRIANGLE else SINE)"

fun MenuScreen_int :: "MenuScreen \<Rightarrow> int" where
  "MenuScreen_int MENU_WAVEFORM = 0"
| "MenuScreen_int MENU_OCTAVE = 1"
| "MenuScreen_int MENU_CHOPPINESS = 2"

definition int_MenuScreen :: "int \<Rightarrow> MenuScreen" where
  "int_MenuScreen n =
     (if n = 0 then MENU_WAVEFORM else if n = 1 then MENU_OCTAVE else MENU_CHOPPINESS)"

text \<open>Arduino's macro \<^verbatim>\<open>constrain(amt, low, high)\<close>.\<close>

definition constrain :: "int \<Rightarrow> int \<Rightarrow> int \<Rightarrow> int" where
  "constrain amt low high = (if amt < low then low else if amt > high then high else amt)"

section \<open>Menu edition: timer interrupt with the ratchet gate\<close>

text \<open>The local \<^verbatim>\<open>ratchetPeriod\<close> of \<^verbatim>\<open>onTimer\<close>, as a function of the choppiness.\<close>

definition ratchetPeriod :: "int \<Rightarrow> int" where
  "ratchetPeriod chop = 1000 sdiv (RATCHET_BASE_HZ * (chop sdiv 2))"

text \<open>
  \<open>now\<close> is the reading of \<^verbatim>\<open>millis()\<close>. The comparison
  \<^verbatim>\<open>now - lastRatchetToggle >= ratchetPeriod\<close> is made in \<^verbatim>\<open>unsigned long\<close>.
\<close>

definition onTimer_menu :: "32 word \<Rightarrow> 'a menu_synth_scheme \<Rightarrow> fault + 'a menu_synth_scheme" where
  "onTimer_menu now s =
     (case
        (if choppiness s > 1 then
           (if 2 ^ 31 \<le> RATCHET_BASE_HZ * (choppiness s sdiv 2) then Inl Overflow
            else if now - lastRatchetToggle s \<ge> word_of_int (ratchetPeriod (choppiness s)) then
              Inr (s\<lparr>ratchetOn := \<not> ratchetOn s, lastRatchetToggle := now\<rparr>)
            else Inr s)
         else Inr (s\<lparr>ratchetOn := True\<rparr>))
      of
        Inl e \<Rightarrow> Inl e
      | Inr s1 \<Rightarrow>
          (if currentFreq s1 > 0 \<and> ratchetOn s1 then
             (if 0 \<le> currentSample s1 \<and> currentSample s1 < SAMPLES then
                let scaledValue = (word_of_int
                      ((uint (waveform_table s1 ! nat (currentSample s1)) * uint (volume s1))
                         sdiv 255) :: 8 word)
                in Inr (s1\<lparr>dac := scaledValue # dac s1,
                           currentSample := (currentSample s1 + 1) smod SAMPLES\<rparr>)
              else Inl OutOfBounds)
           else Inr (s1\<lparr>dac := 0 # dac s1\<rparr>)))"

section \<open>Menu edition: notes, menu and main loop\<close>

definition playNote_menu ::
  "32 word \<Rightarrow> int \<Rightarrow> 'a menu_synth_scheme \<Rightarrow> fault + 'a menu_synth_scheme" where
  "playNote_menu now noteIndex s =
     (if noteIndex < 0 \<or> noteIndex \<ge> 12 then Inr (stopNote s)
      else
        let baseFreq = NOTE_FREQS_OCT4 ! nat noteIndex;
            freq = (if isHighOctave s then baseFreq * 2 else baseFreq)
        in case setFrequency freq s of
             Inl e \<Rightarrow> Inl e
           | Inr s' \<Rightarrow>
               Inr (s'\<lparr>currentNote := noteIndex, lastRatchetToggle := now, ratchetOn := True\<rparr>))"

definition scanKeyboard_menu ::
  "'p menu_pins_scheme \<Rightarrow> 'a menu_synth_scheme \<Rightarrow> fault + 'a menu_synth_scheme" where
  "scanKeyboard_menu p s = scanKeyboard_with (playNote_menu (millis_scan p)) (KEY_PINS p) s"

text \<open>\<open>now\<close> is the reading of \<^verbatim>\<open>millis()\<close> inside \<^verbatim>\<open>playNote\<close>.\<close>

definition adjustCurrentSetting ::
  "32 word \<Rightarrow> int \<Rightarrow> 'a menu_synth_scheme \<Rightarrow> fault + 'a menu_synth_scheme" where
  "adjustCurrentSetting now direction s =
     (case currentMenu s of
        MENU_WAVEFORM \<Rightarrow>
          let s1 = (if direction > 0 then
                      s\<lparr>selectedWaveform :=
                          int_WaveType ((WaveType_int (selectedWaveform s) + 1) smod 3)\<rparr>
                    else
                      s\<lparr>selectedWaveform :=
                          int_WaveType ((WaveType_int (selectedWaveform s) + 2) smod 3)\<rparr>)
          in Inr (case selectedWaveform s1 of
                    SINE \<Rightarrow> s1\<lparr>currentWaveform := SINE\<rparr>
                  | SQUARE \<Rightarrow> s1\<lparr>currentWaveform := SQUARE\<rparr>
                  | TRIANGLE \<Rightarrow> s1\<lparr>currentWaveform := TRIANGLE\<rparr>)
      | MENU_OCTAVE \<Rightarrow>
          let s1 = s\<lparr>isHighOctave := \<not> isHighOctave s\<rparr>
          in if currentNote s1 \<noteq> -1 then playNote_menu now (currentNote s1) s1 else Inr s1
      | MENU_CHOPPINESS \<Rightarrow>
          Inr (if direction > 0 then
                 s\<lparr>choppiness := (if choppiness s \<ge> 8 then 1 else choppiness s * 2)\<rparr>
               else
                 s\<lparr>choppiness := (if choppiness s \<le> 1 then 8 else choppiness s sdiv 2)\<rparr>))"

definition readEncoder_menu ::
  "'p menu_pins_scheme \<Rightarrow> 'a menu_synth_scheme \<Rightarrow> fault + 'a menu_synth_scheme" where
  "readEncoder_menu p s =
     (let currentCLK = ENCODER_CLK p
      in case
           (if currentCLK \<noteq> lastEncoderCLK s \<and> currentCLK = False then
              let direction = (if ENCODER_DT p = True then 1 else -1)
              in case currentMode s of
                   REST \<Rightarrow>
                     let s1 = s\<lparr>encoderValue := encoderValue s + direction * 5\<rparr>;
                         s2 = s1\<lparr>encoderValue := constrain (encoderValue s1) 0 100\<rparr>
                     in Inr (s2\<lparr>volume := word_of_int ((encoderValue s2 * 255) sdiv 100)\<rparr>)
                 | MENU_BROWSE \<Rightarrow>
                     Inr (if direction > 0 then
                            s\<lparr>currentMenu :=
                                int_MenuScreen ((MenuScreen_int (currentMenu s) + 1) smod 3)\<rparr>
                          else
                            s\<lparr>currentMenu :=
                                int_MenuScreen ((MenuScreen_int (currentMenu s) + 2) smod 3)\<rparr>)
                 | SETTING_ADJUST \<Rightarrow> adjustCurrentSetting (millis_adjust p) direction s
            else Inr s)
         of
           Inl e \<Rightarrow> Inl e
         | Inr s' \<Rightarrow> Inr (s'\<lparr>lastEncoderCLK := currentCLK\<rparr>))"

definition handleButtonPress :: "'a menu_synth_scheme \<Rightarrow> 'a menu_synth_scheme" where
  "handleButtonPress s =
     (case currentMode s of
        REST \<Rightarrow> s\<lparr>currentMode := MENU_BROWSE, currentMenu := MENU_WAVEFORM\<rparr>
      | MENU_BROWSE \<Rightarrow> s\<lparr>currentMode := SETTING_ADJUST\<rparr>
      | SETTING_ADJUST \<Rightarrow>
          s\<lparr>currentMode := REST, encoderValue := (uint (volume s) * 100) sdiv 255\<rparr>)"

definition readEncoderButton ::
  "'p menu_pins_scheme \<Rightarrow> 'a menu_synth_scheme \<Rightarrow> 'a menu_synth_scheme" where
  "readEncoderButton p s =
     (let buttonState = ENCODER_SW p;
          s1 = (if buttonState = False \<and> lastButtonState s = True
                   \<and> millis_button p - lastButtonPress s > buttonDebounce then
                  (handleButtonPress s)\<lparr>lastButtonPress := millis_press p\<rparr>
                else s)
      in s1\<lparr>lastButtonState := buttonState\<rparr>)"

definition loop_menu ::
  "'p menu_pins_scheme \<Rightarrow> 'a menu_synth_scheme \<Rightarrow> fault + 'a menu_synth_scheme" where
  "loop_menu p s =
     (case readEncoder_menu p s of
        Inl e \<Rightarrow> Inl e
      | Inr s1 \<Rightarrow> scanKeyboard_menu p (readEncoderButton p s1))"

definition globals_menu :: menu_synth where
  "globals_menu = \<lparr>squareWave = replicate 256 0, triangleWave = replicate 256 0,
     sineWave = replicate 256 0, currentWaveform = SINE, currentSample = 0, currentFreq = 0,
     volume = 128, selectedWaveform = SINE, isHighOctave = False, currentNote = -1,
     lastEncoderCLK = True, timerAlarm = 0, timerAlarmEnabled = False, dac = [],
     currentMode = REST, currentMenu = MENU_WAVEFORM, choppiness = 1, lastRatchetToggle = 0,
     ratchetOn = True, encoderValue = 50, lastButtonState = True, lastButtonPress = 0\<rparr>"

definition setup_menu :: menu_synth where
  "setup_menu = (generateWaveforms globals_menu)\<lparr>timerAlarm := 100, timerAlarmEnabled := True\<rparr>"

section \<open>Runs\<close>

text \<open>
  A run interleaves timer interrupts with passes of the main loop. The interrupt may also
  arrive inside a pass; the functions above are then the steps it interleaves with, and the
  properties below are stated for each of them as well as for runs.
\<close>

datatype 'p switch_event = SwitchTimer | SwitchLoop 'p

fun run_switch ::
  "'p switch_pins_scheme switch_event list \<Rightarrow> 'a switch_synth_scheme \<Rightarrow>
   fault + 'a switch_synth_scheme" where
  "run_switch [] s = Inr s"
| "run_switch (SwitchTimer # es) s =
     (case onTimer s of Inl e \<Rightarrow> Inl e | Inr s' \<Rightarrow> run_switch es s')"
| "run_switch (SwitchLoop p # es) s =
     (case loop p s of Inl e \<Rightarrow> Inl e | Inr s' \<Rightarrow> run_switch es s')"

datatype 'p menu_event = MenuTimer "32 word" | MenuLoop 'p

fun run_menu ::
  "'p menu_pins_scheme menu_event list \<Rightarrow> 'a menu_synth_scheme \<Rightarrow>
   fault + 'a menu_synth_scheme" where
  "run_menu [] s = Inr s"
| "run_menu (MenuTimer now # es) s =
     (case onTimer_menu now s of Inl e \<Rightarrow> Inl e | Inr s' \<Rightarrow> run_menu es s')"
| "run_menu (MenuLoop p # es) s =
     (case loop_menu p s of Inl e \<Rightarrow> Inl e | Inr s' \<Rightarrow> run_menu es s')"

section \<open>In tune\<close>

text \<open>
  A state is in tune when either no note sounds and the target frequency is 0, or a note of
  the scale sounds and the target frequency is the one \<^verbatim>\<open>playNote\<close> programs for it under
  the current octave flag.
\<close>

definition tuned :: "'a synth_scheme \<Rightarrow> bool" where
  "tuned s \<longleftrightarrow>
     (currentNote s = -1 \<and> currentFreq s = 0)
     \<or> (0 \<le> currentNote s \<and> currentNote s < 12
        \<and> currentFreq s = c_trunc (note_freq (currentNote s) (isHighOctave s)))"

section \<open>Sample inputs\<close>

text \<open>
  Pin readings with nothing touched: no key pressed, encoder lines and button high. The sample
  session of the menu edition presses the button (menu), turns the dial twice (to the
  choppiness screen), presses again (adjust), turns once more, and lets the timer fire.
\<close>

definition idle_pins :: menu_pins where
  "idle_pins = \<lparr>KEY_PINS = (\<lambda>i. False), ENCODER_CLK = True, ENCODER_DT = True,
     ENCODER_SW = True, millis_adjust = 0, millis_button = 0, millis_press = 0, millis_scan = 0\<rparr>"

definition menu_session :: "menu_pins menu_event list" where
  "menu_session =
     [MenuLoop (idle_pins\<lparr>ENCODER_SW := False, millis_button := 1000, millis_press := 1000\<rparr>),
      MenuLoop (idle_pins\<lparr>ENCODER_CLK := False\<rparr>),
      MenuLoop idle_pins,
      MenuLoop (idle_pins\<lparr>ENCODER_CLK := False\<rparr>),
      MenuLoop (idle_pins\<lparr>ENCODER_SW := False, millis_button := 2000, millis_press := 2000\<rparr>),
      MenuLoop (idle_pins\<lparr>ENCODER_CLK := False\<rparr>),
      MenuTimer 5000]"

definition idle_switch_pins :: switch_pins where
  "idle_switch_pins = \<lparr>KEY_PINS = (\<lambda>i. False), ENCODER_CLK = True, ENCODER_DT = True,
     OCTAVE_SWITCH = True, BTN_SQUARE = True, BTN_TRIANGLE = True, BTN_SINE = True, millis = 0\<rparr>"

text \<open>
  Two passes of the switch edition's loop with the C4 key held: the octave switch is at low
  in the first pass and at high (the pin reads \<^verbatim>\<open>LOW\<close>) in the second.
\<close>

definition octave_flip_session :: "switch_pins switch_event list" where
  "octave_flip_session =
     [SwitchLoop (idle_switch_pins\<lparr>KEY_PINS := (\<lambda>i. i = 0)\<rparr>),
      SwitchLoop (idle_switch_pins\<lparr>KEY_PINS := (\<lambda>i. i = 0), OCTAVE_SWITCH := False\<rparr>)]"

text \<open>
  States in the middle of a cycle: phase index 37, full volume, and a sine table whose entry
  37 is 200 (the other entries do not matter to what is shown with them).
\<close>

definition mid_cycle :: switch_synth where
  "mid_cycle = globals\<lparr>sineWave := (sineWave globals)[37 := 200], currentSample := 37,
     volume := 255\<rparr>"

definition mid_cycle_menu :: menu_synth where
  "mid_cycle_menu = globals_menu\<lparr>sineWave := (sineWave globals_menu)[37 := 200],
     currentSample := 37, volume := 255, choppiness := 8\<rparr>"

section \<open>Properties\<close>

lemma SAMPLES_half: "SAMPLES sdiv 2 = 128"
  by (simp add: SAMPLES_def signed_divide_int_def)

subsection \<open>C arithmetic on the values that occur\<close>

lemma fill_length: "length (fold (\<lambda>i xs. xs[i := f i]) is xs) = length xs"
  by (induction "is" arbitrary: xs) simp_all

lemma fill_nth:
  "k < n \<Longrightarrow> n \<le> length xs \<Longrightarrow> fold (\<lambda>i xs. xs[i := f i]) [0..<n] xs ! k = f k"
proof (induction n arbitrary: k)
  case 0
  then show ?case by simp
next
  case (Suc n)
  show ?case
  proof (cases "k = n")
    case True
    with Suc.prems show ?thesis by (simp add: fill_length)
  next
    case False
    with Suc.prems have "k < n" by simp
    with Suc.IH [of k] Suc.prems False show ?thesis by (simp add: fill_length)
  qed
qed

lemma fill_table_length: "length (fill_table f xs) = length xs"
  by (simp add: fill_table_def fill_length)

lemma fill_table_nth: "k < 256 \<Longrightarrow> length xs = 256 \<Longrightarrow> fill_table f xs ! k = f (int k)"
  by (simp add: fill_table_def SAMPLES_def fill_nth [where f = "\<lambda>i. f (int i)"])

lemma triangleWave_generate:
  "length (triangleWave s) = 256 \<Longrightarrow> k < 256 \<Longrightarrow>
   triangleWave (generateWaveforms s) ! k = triangle_sample (int k)"
  by (simp add: generateWaveforms_def fill_table_nth)

lemma sdiv_nonneg: "0 \<le> a \<Longrightarrow> 0 < b \<Longrightarrow> a sdiv b = a div (b::int)"
  by (simp add: signed_divide_int_def sgn_if)

lemma smod_nonneg: "0 \<le> a \<Longrightarrow> 0 < b \<Longrightarrow> a smod b = a mod (b::int)"
  by (simp add: signed_modulo_int_def sgn_if)

lemma uint8_of_int: "0 \<le> x \<Longrightarrow> x < 256 \<Longrightarrow> uint (word_of_int x :: 8 word) = x"
  by (simp add: uint_word_of_int)

lemma triangle_sample_low:
  assumes "0 \<le> i" "i < 128"
  shows "uint (triangle_sample i) = 2 * i"
proof -
  have "i * 512 sdiv SAMPLES = 2 * i"
    using assms by (simp add: SAMPLES_def sdiv_nonneg)
  moreover have "i < SAMPLES sdiv 2"
    using assms by (simp add: SAMPLES_half)
  ultimately have "triangle_sample i = word_of_int (2 * i)"
    by (simp only: triangle_sample_def if_True)
  then show ?thesis
    using assms by (simp only: uint8_of_int)
qed

lemma triangle_sample_high:
  assumes "128 \<le> i" "i < 256"
  shows "uint (triangle_sample i) = 511 - 2 * i"
proof -
  have "(i - SAMPLES sdiv 2) * 512 sdiv SAMPLES = 2 * i - 256"
    using assms by (simp add: SAMPLES_half) (simp add: SAMPLES_def sdiv_nonneg)
  moreover have "\<not> i < SAMPLES sdiv 2"
    using assms by (simp add: SAMPLES_half)
  ultimately have "triangle_sample i = word_of_int (255 - (2 * i - 256))"
    by (simp only: triangle_sample_def if_False)
  moreover have "0 \<le> 255 - (2 * i - 256)" "255 - (2 * i - 256) < 256"
    using assms by simp_all
  ultimately have "uint (triangle_sample i) = 255 - (2 * i - 256)"
    by (simp only: uint8_of_int)
  then show ?thesis by simp
qed

subsection \<open>The triangle table\<close>

text \<open>
  Claim C6. After \<^verbatim>\<open>generateWaveforms\<close> the triangle table holds \<open>i * 512 / N\<close> at
  every index \<open>i\<close> below \<open>N / 2\<close> and \<open>255 - (i - N / 2) * 512 / N\<close> at every other index
  (\<open>N = 256\<close>). Its first entry is 0, entry \<open>N / 2 - 1\<close> is 254 and the last entry is 1, the
  values nearest to 255 and 0 that the ramp reaches there. The table does not decrease over
  the first half and does not increase over the second half.
\<close>

theorem triangle_table_shape:
  assumes "length (triangleWave s) = 256"
  shows "(\<forall>i<128. uint (triangleWave (generateWaveforms s) ! i) = int i * 512 div SAMPLES)
    \<and> (\<forall>i. 128 \<le> i \<and> i < 256 \<longrightarrow>
          uint (triangleWave (generateWaveforms s) ! i) = 255 - (int i - SAMPLES div 2) * 512 div SAMPLES)
    \<and> triangleWave (generateWaveforms s) ! 0 = 0
    \<and> triangleWave (generateWaveforms s) ! 127 = 254
    \<and> triangleWave (generateWaveforms s) ! 255 = 1
    \<and> (\<forall>i j. i \<le> j \<and> j < 128 \<longrightarrow>
          triangleWave (generateWaveforms s) ! i \<le> triangleWave (generateWaveforms s) ! j)
    \<and> (\<forall>i j. 128 \<le> i \<and> i \<le> j \<and> j < 256 \<longrightarrow>
          triangleWave (generateWaveforms s) ! j \<le> triangleWave (generateWaveforms s) ! i)"
proof -
  let ?t = "triangleWave (generateWaveforms s)"
  have low: "uint (?t ! i) = 2 * int i" if "i < 128" for i
    using that assms by (simp add: triangleWave_generate triangle_sample_low)
  have high: "uint (?t ! i) = 511 - 2 * int i" if "128 \<le> i" "i < 256" for i
    using that assms by (simp add: triangleWave_generate triangle_sample_high)
  have a: "\<forall>i<128. uint (?t ! i) = int i * 512 div SAMPLES"
    using low by (simp add: SAMPLES_def)
  have b: "\<forall>i. 128 \<le> i \<and> i < 256 \<longrightarrow> uint (?t ! i) = 255 - (int i - SAMPLES div 2) * 512 div SAMPLES"
    using high by (simp add: SAMPLES_def)
  have "uint (?t ! 0) = 0" using low [of 0] by simp
  then have c: "?t ! 0 = 0" by (simp add: word_uint_eq_iff)
  have "uint (?t ! 127) = 254" using low [of 127] by simp
  then have d: "?t ! 127 = 254" by (simp add: word_uint_eq_iff)
  have "uint (?t ! 255) = 1" using high [of 255] by simp
  then have e: "?t ! 255 = 1" by (simp add: word_uint_eq_iff)
  have f: "\<forall>i j. i \<le> j \<and> j < 128 \<longrightarrow> ?t ! i \<le> ?t ! j"
    using low by (simp add: word_le_def)
  have g: "\<forall>i j. 128 \<le> i \<and> i \<le> j \<and> j < 256 \<longrightarrow> ?t ! j \<le> ?t ! i"
    using high by (simp add: word_le_def)
  from a b c d e f g show ?thesis by blast
qed

theorem triangle_table_shape_witness:
  "length (triangleWave globals) = 256 \<and> triangleWave (generateWaveforms globals) ! 127 = 254
   \<and> triangleWave (generateWaveforms globals) ! 0 \<le> triangleWave (generateWaveforms globals) ! 5"
proof -
  have h: "length (triangleWave globals) = 256" by (simp add: globals_def)
  from triangle_table_shape [OF h] show ?thesis using h by simp
qed

subsection \<open>What the foreground leaves alone: the phase index\<close>

lemma scanKeyboard_loop_preserves:
  assumes play: "\<And>i t t'. play i t = Inr t' \<Longrightarrow> P t \<Longrightarrow> P t'"
  shows "scanKeyboard_loop play key is s = Inr (b, s') \<Longrightarrow> P s \<Longrightarrow> P s'"
proof (induction "is")
  case Nil
  then show ?case by simp
next
  case (Cons i rest)
  then show ?case
    by (auto split: if_splits sum.splits dest: play)
qed

lemma scanKeyboard_with_preserves:
  assumes play: "\<And>i t t'. play i t = Inr t' \<Longrightarrow> P t \<Longrightarrow> P t'"
    and stop: "\<And>t. P t \<Longrightarrow> P (stopNote t)"
    and run: "scanKeyboard_with play key s = Inr s'" and init: "P s"
  shows "P s'"
proof (cases "scanKeyboard_loop play key [0, 1, 2, 3, 4, 5, 6, 7, 8, 9, 10, 11] s")
  case (Inl e)
  with run show ?thesis by (simp add: scanKeyboard_with_def)
next
  case (Inr r)
  obtain b t where r: "r = (b, t)" by (cases r)
  have "P t"
  proof (rule scanKeyboard_loop_preserves [where play = play and P = P])
    show "\<And>i t t'. play i t = Inr t' \<Longrightarrow> P t \<Longrightarrow> P t'" by (rule play)
    show "scanKeyboard_loop play key [0, 1, 2, 3, 4, 5, 6, 7, 8, 9, 10, 11] s = Inr (b, t)"
      using Inr r by simp
    show "P s" by (rule init)
  qed
  with run Inr r stop show ?thesis
    by (auto simp add: scanKeyboard_with_def split: if_splits)
qed

lemma setFrequency_currentSample:
  "setFrequency freq s = Inr s' \<Longrightarrow> currentSample s' = currentSample s"
  by (auto simp add: setFrequency_def Let_def split: if_splits)

lemma playNote_currentSample:
  "playNote n s = Inr s' \<Longrightarrow> currentSample s' = currentSample s"
  by (auto simp add: playNote_def stopNote_def Let_def split: if_splits sum.splits
      dest: setFrequency_currentSample)

lemma playNote_menu_currentSample:
  "playNote_menu now n s = Inr s' \<Longrightarrow> currentSample s' = currentSample s"
  by (auto simp add: playNote_menu_def stopNote_def Let_def split: if_splits sum.splits
      dest: setFrequency_currentSample)

lemma stopNote_currentSample: "currentSample (stopNote s) = currentSample s"
  by (simp add: stopNote_def)

lemma scanKeyboard_currentSample:
  "scanKeyboard p s = Inr s' \<Longrightarrow> currentSample s' = currentSample s"
  unfolding scanKeyboard_def
  by (rule scanKeyboard_with_preserves [where P = "\<lambda>t. currentSample t = currentSample s" and play = playNote])
     (simp_all add: playNote_currentSample stopNote_currentSample)

lemma scanKeyboard_menu_currentSample:
  "scanKeyboard_menu p s = Inr s' \<Longrightarrow> currentSample s' = currentSample s"
  unfolding scanKeyboard_menu_def
  by (rule scanKeyboard_with_preserves
        [where P = "\<lambda>t. currentSample t = currentSample s" and play = "playNote_menu (millis_scan p)"])
     (simp_all add: playNote_menu_currentSample stopNote_currentSample)

lemma readEncoder_currentSample: "currentSample (readEncoder p s) = currentSample s"
  by (simp add: readEncoder_def Let_def)

lemma setWaveform_currentSample: "currentSample (setWaveform ty s) = currentSample s"
  by (cases ty) (simp_all add: setWaveform_def)

lemma checkButton_currentSample: "currentSample (checkButton b k ty now s) = currentSample s"
  by (simp add: checkButton_def setWaveform_currentSample)

lemma readWaveformButtons_currentSample: "currentSample (readWaveformButtons p s) = currentSample s"
  by (simp add: readWaveformButtons_def Let_def checkButton_currentSample)

lemma loop_currentSample: "loop p s = Inr s' \<Longrightarrow> currentSample s' = currentSample s"
  by (auto simp add: loop_def Let_def readWaveformButtons_currentSample readEncoder_currentSample
      dest!: scanKeyboard_currentSample)

lemma adjustCurrentSetting_currentSample:
  "adjustCurrentSetting now d s = Inr s' \<Longrightarrow> currentSample s' = currentSample s"
  by (cases "currentMenu s")
     (auto simp add: adjustCurrentSetting_def Let_def
        split: if_splits WaveType.splits dest: playNote_menu_currentSample)

lemma readEncoder_menu_currentSample:
  "readEncoder_menu p s = Inr s' \<Longrightarrow> currentSample s' = currentSample s"
  by (cases "currentMode s")
     (auto simp add: readEncoder_menu_def Let_def
        split: if_splits sum.splits dest: adjustCurrentSetting_currentSample)

lemma handleButtonPress_currentSample: "currentSample (handleButtonPress s) = currentSample s"
  by (cases "currentMode s") (simp_all add: handleButtonPress_def)

lemma readEncoderButton_currentSample: "currentSample (readEncoderButton p s) = currentSample s"
  by (simp add: readEncoderButton_def Let_def handleButtonPress_currentSample)

lemma loop_menu_currentSample: "loop_menu p s = Inr s' \<Longrightarrow> currentSample s' = currentSample s"
  by (auto simp add: loop_menu_def readEncoderButton_currentSample
      split: sum.splits dest!: scanKeyboard_menu_currentSample readEncoder_menu_currentSample)


subsection \<open>Notes out of range\<close>

text \<open>
  Claim C7. For every note index outside \<open>0..11\<close>, \<^verbatim>\<open>playNote\<close> does exactly what
  \<^verbatim>\<open>stopNote\<close> does, in both editions: the target frequency becomes 0, the note identity
  becomes \<open>-1\<close>, and nothing is resolved from the table (the timer is left as it was).
\<close>

theorem playNote_out_of_range:
  "noteIndex < 0 \<or> 12 \<le> noteIndex \<Longrightarrow>
     playNote noteIndex s = Inr (stopNote s)
     \<and> playNote_menu now noteIndex m = Inr (stopNote m)
     \<and> currentFreq (stopNote s) = 0 \<and> currentNote (stopNote s) = -1
     \<and> currentFreq (stopNote m) = 0 \<and> currentNote (stopNote m) = -1
     \<and> timerAlarm (stopNote s) = timerAlarm s \<and> timerAlarm (stopNote m) = timerAlarm m"
  by (auto simp add: playNote_def playNote_menu_def stopNote_def)

theorem playNote_out_of_range_witness:
  "((12::int) < 0 \<or> (12::int) \<le> 12)
   \<and> playNote 12 globals = Inr (stopNote globals)
   \<and> playNote_menu 0 12 globals_menu = Inr (stopNote globals_menu)
   \<and> currentFreq (stopNote globals) = 0 \<and> currentNote (stopNote globals) = -1"
  using playNote_out_of_range [of 12 globals 0 globals_menu] by simp

subsection \<open>Non-positive frequencies\<close>

text \<open>
  Claim C8. For every frequency argument less than or equal to 0, \<^verbatim>\<open>setFrequency\<close> sets the
  target frequency to 0 and returns at once: the result is the state with only \<open>currentFreq\<close>
  changed, so no period is computed for it, the timer is not touched and no division by zero
  or by a negative value takes place.
\<close>

theorem setFrequency_nonpositive:
  "freq \<le> 0 \<Longrightarrow> setFrequency freq s = Inr (s\<lparr>currentFreq := 0\<rparr>)"
  by (simp add: setFrequency_def)

theorem setFrequency_nonpositive_witness:
  "(-5::rat) \<le> 0 \<and> setFrequency (-5) globals = Inr (globals\<lparr>currentFreq := 0\<rparr>)"
  using setFrequency_nonpositive [of "-5" globals] by simp

text \<open>
  The guard is on the floating-point argument. A positive argument below 1, which
  \<^verbatim>\<open>playNote\<close> never passes, truncates to 0 behind the guard.
\<close>

lemma setFrequency_DivideByZero_iff:
  "setFrequency freq s = Inl DivideByZero \<longleftrightarrow> 0 < freq \<and> freq < 1"
  by (auto simp add: setFrequency_def Let_def c_trunc_def SAMPLES_def floor_eq_iff split: if_splits)


subsection \<open>Choppiness levels\<close>


lemma adjustCurrentSetting_choppiness:
  "adjustCurrentSetting now d s = Inr s' \<Longrightarrow> choppiness s \<in> {1, 2, 4, 8} \<Longrightarrow>
   choppiness s' \<in> {1, 2, 4, 8}"
  by (cases "currentMenu s")
     (auto simp add: adjustCurrentSetting_def playNote_menu_def stopNote_def setFrequency_def
        Let_def signed_divide_int_def split: if_splits sum.splits WaveType.splits)


subsection \<open>Silence does not advance the phase\<close>


lemma onTimer_silent: "currentFreq s \<le> 0 \<Longrightarrow> onTimer s = Inr (s\<lparr>dac := 0 # dac s\<rparr>)"
  by (simp add: onTimer_def)

lemma run_switch_silent:
  "currentFreq s \<le> 0 \<Longrightarrow>
   run_switch (replicate n SwitchTimer) s = Inr (s\<lparr>dac := replicate n 0 @ dac s\<rparr>)"
proof (induction n arbitrary: s)
  case 0
  then show ?case by simp
next
  case (Suc n)
  from Suc.prems have "currentFreq (s\<lparr>dac := 0 # dac s\<rparr>) \<le> 0" by simp
  from Suc.IH [OF this] Suc.prems show ?case
    by (simp add: onTimer_silent replicate_app_Cons_same)
qed

lemma ratchet_no_overflow:
  "1 < c \<Longrightarrow> c < 2 ^ 29 \<Longrightarrow> \<not> 2 ^ 31 \<le> RATCHET_BASE_HZ * (c sdiv 2)"
  by (simp add: RATCHET_BASE_HZ_def signed_divide_int_def sgn_if)

lemma onTimer_menu_closed:
  assumes "onTimer_menu now s = Inr s'" "\<not> (0 < currentFreq s' \<and> ratchetOn s')"
  shows "currentSample s' = currentSample s \<and> dac s' = 0 # dac s"
  using assms
  by (auto simp add: onTimer_menu_def Let_def split: if_splits sum.splits)

lemma onTimer_menu_silent:
  assumes "currentFreq s \<le> 0" "choppiness s < 2 ^ 29"
  shows "\<exists>s'. onTimer_menu now s = Inr s' \<and> currentSample s' = currentSample s
           \<and> dac s' = 0 # dac s \<and> currentFreq s' = currentFreq s \<and> choppiness s' = choppiness s"
proof (cases "1 < choppiness s")
  case True
  from True assms(2) have "\<not> 2 ^ 31 \<le> RATCHET_BASE_HZ * (choppiness s sdiv 2)"
    by (rule ratchet_no_overflow)
  with True assms(1) show ?thesis
    by (simp add: onTimer_menu_def)
next
  case False
  with assms(1) show ?thesis
    by (simp add: onTimer_menu_def)
qed

lemma run_menu_silent:
  "currentFreq s \<le> 0 \<Longrightarrow> choppiness s < 2 ^ 29 \<Longrightarrow>
   \<exists>s'. run_menu (map MenuTimer nows :: 'p menu_pins_scheme menu_event list) s = Inr s'
        \<and> currentSample s' = currentSample s
        \<and> dac s' = replicate (length nows) 0 @ dac s \<and> currentFreq s' = currentFreq s"
proof (induction nows arbitrary: s)
  case Nil
  then show ?case by simp
next
  case (Cons now nows)
  from onTimer_menu_silent [OF Cons.prems, of now] obtain t where
    t: "onTimer_menu now s = Inr t" "currentSample t = currentSample s" "dac t = 0 # dac s"
       "currentFreq t = currentFreq s" "choppiness t = choppiness s"
    by blast
  with Cons.prems have "currentFreq t \<le> 0" "choppiness t < 2 ^ 29" by simp_all
  from Cons.IH [OF this] obtain s' where
    "run_menu (map MenuTimer nows :: 'p menu_pins_scheme menu_event list) t = Inr s'"
    "currentSample s' = currentSample t"
    "dac s' = replicate (length nows) 0 @ dac t" "currentFreq s' = currentFreq t"
    by auto
  with t show ?case by (simp add: replicate_app_Cons_same)
qed

text \<open>
  Claim C2. After \<^verbatim>\<open>stopNote\<close>, any number of timer interrupts emits the silence value 0
  each time and leaves the phase index \<open>currentSample\<close> where it was, in both editions (in the
  menu edition whatever the clock readings are, for a choppiness whose ratchet period is
  computed without overflow). More generally, a tick that takes the silence branch, because
  the frequency is 0 or because the ratchet gate is closed, emits 0 and does not advance the
  phase.
\<close>

theorem silence_keeps_phase:
  "run_switch (replicate n SwitchTimer :: 'p switch_pins_scheme switch_event list) (stopNote s)
     = Inr ((stopNote s)\<lparr>dac := replicate n 0 @ dac (stopNote s)\<rparr>)
   \<and> (choppiness m < 2 ^ 29 \<longrightarrow>
        (\<exists>m'. run_menu (map MenuTimer nows :: 'q menu_pins_scheme menu_event list) (stopNote m)
                = Inr m'
           \<and> currentSample m' = currentSample m
           \<and> dac m' = replicate (length nows) 0 @ dac (stopNote m)))
   \<and> (currentFreq s \<le> 0 \<longrightarrow> onTimer s = Inr (s\<lparr>dac := 0 # dac s\<rparr>))
   \<and> (onTimer_menu now m = Inr m2 \<and> \<not> (0 < currentFreq m2 \<and> ratchetOn m2) \<longrightarrow>
        currentSample m2 = currentSample m \<and> dac m2 = 0 # dac m)"
proof -
  have a: "run_switch (replicate n SwitchTimer :: 'p switch_pins_scheme switch_event list)
       (stopNote s)
     = Inr ((stopNote s)\<lparr>dac := replicate n 0 @ dac (stopNote s)\<rparr>)"
    by (rule run_switch_silent) (simp add: stopNote_def)
  have b: "\<exists>m'. run_menu (map MenuTimer nows :: 'q menu_pins_scheme menu_event list)
              (stopNote m) = Inr m'
           \<and> currentSample m' = currentSample m
           \<and> dac m' = replicate (length nows) 0 @ dac (stopNote m)" if "choppiness m < 2 ^ 29"
    using run_menu_silent [of "stopNote m" nows] that by (auto simp add: stopNote_def)
  show ?thesis
    using a b onTimer_silent [of s] onTimer_menu_closed [of now m m2] by blast
qed


lemma replicate_3: "replicate 3 x = [x, x, x]"
  by (simp add: numeral_3_eq_3)

theorem silence_keeps_phase_witness:
  "choppiness (globals_menu\<lparr>currentSample := 37, currentFreq := 440, choppiness := 2\<rparr>) < 2 ^ 29
   \<and> currentFreq (globals\<lparr>currentSample := 37\<rparr>) \<le> 0
   \<and> onTimer_menu 125 (globals_menu\<lparr>currentSample := 37, currentFreq := 440, choppiness := 2\<rparr>)
       = Inr (globals_menu\<lparr>currentSample := 37, currentFreq := 440, dac := [0], choppiness := 2,
                lastRatchetToggle := 125, ratchetOn := False\<rparr>)
   \<and> run_switch (replicate 3 (SwitchTimer :: switch_pins switch_event))
         (stopNote (globals\<lparr>currentSample := 37\<rparr>))
       = Inr (globals\<lparr>currentSample := 37, currentFreq := 0, currentNote := -1, dac := [0, 0, 0, 0]\<rparr>)
   \<and> (\<exists>m'. run_menu (map MenuTimer [10, 50, 90] :: menu_pins menu_event list)
               (stopNote (globals_menu\<lparr>currentSample := 37, currentFreq := 440, choppiness := 2\<rparr>))
             = Inr m'
          \<and> currentSample m' = 37 \<and> dac m' = [0, 0, 0, 0])"
  using silence_keeps_phase [of 3 "globals\<lparr>currentSample := 37\<rparr>"
      "globals_menu\<lparr>currentSample := 37, currentFreq := 440, choppiness := 2\<rparr>" "[10, 50, 90]" 125
      "globals_menu\<lparr>currentSample := 37, currentFreq := 440, dac := [0], choppiness := 2,
                lastRatchetToggle := 125, ratchetOn := False\<rparr>",
      where ?'p = unit and ?'q = unit]
  by (simp add: globals_def globals_menu_def stopNote_def onTimer_menu_def ratchetPeriod_def
      RATCHET_BASE_HZ_def signed_divide_int_def replicate_3)

lemma playNote_menu_choppiness:
  "playNote_menu now n s = Inr s' \<Longrightarrow> choppiness s' = choppiness s"
  by (auto simp add: playNote_menu_def stopNote_def setFrequency_def Let_def
      split: if_splits sum.splits)

lemma stopNote_choppiness: "choppiness (stopNote s) = choppiness s"
  by (simp add: stopNote_def)

lemma scanKeyboard_menu_choppiness:
  "scanKeyboard_menu p s = Inr s' \<Longrightarrow> choppiness s' = choppiness s"
  unfolding scanKeyboard_menu_def
  by (rule scanKeyboard_with_preserves
        [where P = "\<lambda>t. choppiness t = choppiness s" and play = "playNote_menu (millis_scan p)"])
     (simp_all add: playNote_menu_choppiness stopNote_choppiness)

lemma readEncoder_menu_choppiness:
  "readEncoder_menu p s = Inr s' \<Longrightarrow> choppiness s \<in> {1, 2, 4, 8} \<Longrightarrow>
   choppiness s' \<in> {1, 2, 4, 8}"
  by (cases "currentMode s")
     (auto simp add: readEncoder_menu_def Let_def
        split: if_splits sum.splits dest: adjustCurrentSetting_choppiness)

lemma readEncoderButton_choppiness: "choppiness (readEncoderButton p s) = choppiness s"
  by (cases "currentMode s") (simp_all add: readEncoderButton_def handleButtonPress_def Let_def)

lemma loop_menu_choppiness:
  "loop_menu p s = Inr s' \<Longrightarrow> choppiness s \<in> {1, 2, 4, 8} \<Longrightarrow> choppiness s' \<in> {1, 2, 4, 8}"
  by (auto simp add: loop_menu_def readEncoderButton_choppiness
      split: sum.splits dest!: scanKeyboard_menu_choppiness dest: readEncoder_menu_choppiness)

lemma onTimer_menu_choppiness:
  "onTimer_menu now s = Inr s' \<Longrightarrow> choppiness s' = choppiness s"
  by (auto simp add: onTimer_menu_def Let_def split: if_splits sum.splits)

lemma run_menu_choppiness:
  "run_menu es s = Inr s' \<Longrightarrow> choppiness s \<in> {1, 2, 4, 8} \<Longrightarrow> choppiness s' \<in> {1, 2, 4, 8}"
proof (induction es arbitrary: s)
  case Nil
  then show ?case by simp
next
  case (Cons e es)
  show ?case
  proof (cases e)
    case (MenuTimer now)
    with Cons.prems obtain t where t: "onTimer_menu now s = Inr t" "run_menu es t = Inr s'"
      by (auto split: sum.splits)
    from t(1) Cons.prems(2) have "choppiness t \<in> {1, 2, 4, 8}"
      by (simp add: onTimer_menu_choppiness)
    with Cons.IH t(2) show ?thesis by blast
  next
    case (MenuLoop p)
    with Cons.prems obtain t where t: "loop_menu p s = Inr t" "run_menu es t = Inr s'"
      by (auto split: sum.splits)
    from t(1) Cons.prems(2) have "choppiness t \<in> {1, 2, 4, 8}"
      by (rule loop_menu_choppiness)
    with Cons.IH t(2) show ?thesis by blast
  qed
qed

lemma choppiness_step:
  "currentMenu s = MENU_CHOPPINESS \<Longrightarrow>
   adjustCurrentSetting now d s =
     Inr (if 0 < d then s\<lparr>choppiness := (if 8 \<le> choppiness s then 1 else choppiness s * 2)\<rparr>
          else s\<lparr>choppiness := (if choppiness s \<le> 1 then 8 else choppiness s sdiv 2)\<rparr>)"
  by (simp add: adjustCurrentSetting_def)

text \<open>
  Claim C9. In the menu edition the choppiness level starts at 1. On the choppiness screen an
  increment maps 1 to 2, 2 to 4, 4 to 8 and 8 to 1, and a decrement maps 1 to 8, 8 to 4, 4 to 2
  and 2 to 1. No adjustment takes the level out of \<open>{1, 2, 4, 8}\<close>, and neither does any run of
  timer interrupts and loop passes from the state \<^verbatim>\<open>setup\<close> leaves.
\<close>

theorem choppiness_levels:
  "choppiness setup_menu = 1
   \<and> (currentMenu s = MENU_CHOPPINESS \<and> 0 < d \<longrightarrow>
        (choppiness s = 1 \<longrightarrow> adjustCurrentSetting now d s = Inr (s\<lparr>choppiness := 2\<rparr>))
      \<and> (choppiness s = 2 \<longrightarrow> adjustCurrentSetting now d s = Inr (s\<lparr>choppiness := 4\<rparr>))
      \<and> (choppiness s = 4 \<longrightarrow> adjustCurrentSetting now d s = Inr (s\<lparr>choppiness := 8\<rparr>))
      \<and> (choppiness s = 8 \<longrightarrow> adjustCurrentSetting now d s = Inr (s\<lparr>choppiness := 1\<rparr>)))
   \<and> (currentMenu s = MENU_CHOPPINESS \<and> \<not> 0 < d \<longrightarrow>
        (choppiness s = 1 \<longrightarrow> adjustCurrentSetting now d s = Inr (s\<lparr>choppiness := 8\<rparr>))
      \<and> (choppiness s = 8 \<longrightarrow> adjustCurrentSetting now d s = Inr (s\<lparr>choppiness := 4\<rparr>))
      \<and> (choppiness s = 4 \<longrightarrow> adjustCurrentSetting now d s = Inr (s\<lparr>choppiness := 2\<rparr>))
      \<and> (choppiness s = 2 \<longrightarrow> adjustCurrentSetting now d s = Inr (s\<lparr>choppiness := 1\<rparr>)))
   \<and> (choppiness s \<in> {1, 2, 4, 8} \<and> adjustCurrentSetting now d s = Inr s'
        \<longrightarrow> choppiness s' \<in> {1, 2, 4, 8})
   \<and> (run_menu (es :: 'p menu_pins_scheme menu_event list) setup_menu = Inr m
        \<longrightarrow> choppiness m \<in> {1, 2, 4, 8})"
proof -
  have init: "choppiness setup_menu = 1"
    by (simp add: setup_menu_def generateWaveforms_def globals_menu_def)
  have up: "currentMenu s = MENU_CHOPPINESS \<and> 0 < d \<longrightarrow>
        (choppiness s = 1 \<longrightarrow> adjustCurrentSetting now d s = Inr (s\<lparr>choppiness := 2\<rparr>))
      \<and> (choppiness s = 2 \<longrightarrow> adjustCurrentSetting now d s = Inr (s\<lparr>choppiness := 4\<rparr>))
      \<and> (choppiness s = 4 \<longrightarrow> adjustCurrentSetting now d s = Inr (s\<lparr>choppiness := 8\<rparr>))
      \<and> (choppiness s = 8 \<longrightarrow> adjustCurrentSetting now d s = Inr (s\<lparr>choppiness := 1\<rparr>))"
    by (simp add: choppiness_step)
  have down: "currentMenu s = MENU_CHOPPINESS \<and> \<not> 0 < d \<longrightarrow>
        (choppiness s = 1 \<longrightarrow> adjustCurrentSetting now d s = Inr (s\<lparr>choppiness := 8\<rparr>))
      \<and> (choppiness s = 8 \<longrightarrow> adjustCurrentSetting now d s = Inr (s\<lparr>choppiness := 4\<rparr>))
      \<and> (choppiness s = 4 \<longrightarrow> adjustCurrentSetting now d s = Inr (s\<lparr>choppiness := 2\<rparr>))
      \<and> (choppiness s = 2 \<longrightarrow> adjustCurrentSetting now d s = Inr (s\<lparr>choppiness := 1\<rparr>))"
    by (simp add: choppiness_step signed_divide_int_def)
  have step: "choppiness s \<in> {1, 2, 4, 8} \<and> adjustCurrentSetting now d s = Inr s'
        \<longrightarrow> choppiness s' \<in> {1, 2, 4, 8}"
    using adjustCurrentSetting_choppiness [of now d s s'] by blast
  have run: "run_menu es setup_menu = Inr m \<longrightarrow> choppiness m \<in> {1, 2, 4, 8}"
    using run_menu_choppiness [of es setup_menu m] init by simp
  from init up down step run show ?thesis by blast
qed


lemma menu_session_run:
  "run_menu menu_session setup_menu =
     Inr (setup_menu\<lparr>lastEncoderCLK := False, dac := [0], currentMode := SETTING_ADJUST,
            currentMenu := MENU_CHOPPINESS, choppiness := 2, lastRatchetToggle := 5000,
            ratchetOn := False, lastButtonState := True, lastButtonPress := 2000\<rparr>)"
  by (simp add: menu_session_def idle_pins_def setup_menu_def generateWaveforms_def globals_menu_def
      loop_menu_def readEncoder_menu_def readEncoderButton_def handleButtonPress_def
      scanKeyboard_menu_def scanKeyboard_with_def adjustCurrentSetting_def onTimer_menu_def
      int_MenuScreen_def buttonDebounce_def ratchetPeriod_def RATCHET_BASE_HZ_def
      signed_divide_int_def signed_modulo_int_def Let_def)

theorem choppiness_levels_witness:
  "currentMenu (globals_menu\<lparr>currentMenu := MENU_CHOPPINESS\<rparr>) = MENU_CHOPPINESS
   \<and> choppiness (globals_menu\<lparr>currentMenu := MENU_CHOPPINESS\<rparr>) = 1
   \<and> adjustCurrentSetting 0 1 (globals_menu\<lparr>currentMenu := MENU_CHOPPINESS\<rparr>)
       = Inr (globals_menu\<lparr>currentMenu := MENU_CHOPPINESS, choppiness := 2\<rparr>)
   \<and> adjustCurrentSetting 0 (-1) (globals_menu\<lparr>currentMenu := MENU_CHOPPINESS\<rparr>)
       = Inr (globals_menu\<lparr>currentMenu := MENU_CHOPPINESS, choppiness := 8\<rparr>)
   \<and> \<not> isl (run_menu menu_session setup_menu)
   \<and> choppiness (projr (run_menu menu_session setup_menu)) = 2
   \<and> choppiness (projr (run_menu menu_session setup_menu)) \<in> {1, 2, 4, 8}"
  using choppiness_levels [of "globals_menu\<lparr>currentMenu := MENU_CHOPPINESS\<rparr>" 1 0
      "globals_menu\<lparr>currentMenu := MENU_CHOPPINESS, choppiness := 2\<rparr>"
      menu_session "projr (run_menu menu_session setup_menu)"]
    choppiness_levels [of "globals_menu\<lparr>currentMenu := MENU_CHOPPINESS\<rparr>" "-1" 0
      "globals_menu\<lparr>currentMenu := MENU_CHOPPINESS, choppiness := 8\<rparr>"
      menu_session "projr (run_menu menu_session setup_menu)"]
  by (simp add: menu_session_run globals_menu_def)

subsection \<open>Resolved frequencies and the timer period\<close>

lemma NOTE_FREQS_OCT4_values:
  "NOTE_FREQS_OCT4 =
     [2143273 / 8192, 4541317 / 16384, 9622651 / 32768, 2548777 / 8192, 2700329 / 8192,
      11443569 / 32768, 1515479 / 4096, 392, 6804275 / 16384, 440, 15275131 / 32768,
      4045865 / 8192]"
  by code_simp

lemma valid_note_cases:
  "0 \<le> n \<Longrightarrow> n < 12 \<Longrightarrow> n \<in> {0, 1, 2, 3, 4, 5, 6, 7, 8, 9, 10, 11 :: int}"
  by (simp, arith)

lemma note_freq_low_trunc:
  "0 \<le> n \<Longrightarrow> n < 12 \<Longrightarrow>
   c_trunc (note_freq n False) = [261, 277, 293, 311, 329, 349, 369, 392, 415, 440, 466, 493] ! nat n"
  by (drule (1) valid_note_cases)
     (auto simp add: note_freq_def NOTE_FREQS_OCT4_values c_trunc_def Let_def floor_eq_iff)

lemma note_freq_high_trunc:
  "0 \<le> n \<Longrightarrow> n < 12 \<Longrightarrow>
   c_trunc (note_freq n True) = [523, 554, 587, 622, 659, 698, 739, 784, 830, 880, 932, 987] ! nat n"
  by (drule (1) valid_note_cases)
     (auto simp add: note_freq_def NOTE_FREQS_OCT4_values c_trunc_def Let_def floor_eq_iff)

lemma note_freq_range:
  "0 \<le> n \<Longrightarrow> n < 12 \<Longrightarrow> 261 < note_freq n hi \<and> note_freq n hi < 988"
  by (drule (1) valid_note_cases)
     (auto simp add: note_freq_def NOTE_FREQS_OCT4_values Let_def)

lemma note_freq_trunc_range:
  assumes "0 \<le> n" "n < 12"
  shows "261 \<le> c_trunc (note_freq n hi) \<and> c_trunc (note_freq n hi) \<le> 987"
proof -
  from note_freq_range [OF assms, of hi] have "261 < note_freq n hi" "note_freq n hi < 988"
    by simp_all
  then show ?thesis
    by (simp add: c_trunc_def le_floor_iff floor_le_iff)
qed


lemma uint64_of_int: "0 \<le> x \<Longrightarrow> x < 2 ^ 64 \<Longrightarrow> uint (word_of_int x :: 64 word) = x"
  by (simp add: uint_word_of_int)

lemma setFrequency_audible:
  assumes "1 \<le> freq" "freq < 8388608"
  shows "setFrequency freq s =
           Inr (s\<lparr>currentFreq := \<lfloor>freq\<rfloor>,
                  timerAlarm := word_of_int (1000000 div (\<lfloor>freq\<rfloor> * SAMPLES)),
                  timerAlarmEnabled := True\<rparr>)"
proof -
  define x where "x = \<lfloor>freq\<rfloor>"
  from assms have x: "1 \<le> x" "x < 8388608"
    by (simp_all add: x_def le_floor_iff floor_less_iff)
  then have "\<not> 2 ^ 31 \<le> x * SAMPLES" "x * SAMPLES \<noteq> 0"
    "1000000 sdiv (x * SAMPLES) = 1000000 div (x * SAMPLES)"
    by (simp_all add: SAMPLES_def sdiv_nonneg)
  moreover from assms have "\<not> freq \<le> 0" "\<not> 2 ^ 31 \<le> freq" "c_trunc freq = x"
    by (simp_all add: c_trunc_def x_def)
  ultimately have "setFrequency freq s =
           Inr (s\<lparr>currentFreq := x, timerAlarm := word_of_int (1000000 div (x * SAMPLES)),
                  timerAlarmEnabled := True\<rparr>)"
    by (simp add: setFrequency_def Let_def)
  then show ?thesis by (simp only: x_def)
qed

lemma playNote_valid:
  assumes "0 \<le> n" "n < 12"
  shows "playNote n s =
           Inr (s\<lparr>currentFreq := c_trunc (note_freq n (isHighOctave s)),
                  currentNote := n,
                  timerAlarm := word_of_int
                    (1000000 div (c_trunc (note_freq n (isHighOctave s)) * SAMPLES)),
                  timerAlarmEnabled := True\<rparr>)"
proof -
  from note_freq_range [OF assms, of "isHighOctave s"]
  have r: "1 \<le> note_freq n (isHighOctave s)" "note_freq n (isHighOctave s) < 8388608"
    by simp_all
  then have "c_trunc (note_freq n (isHighOctave s)) = \<lfloor>note_freq n (isHighOctave s)\<rfloor>"
    by (simp add: c_trunc_def)
  with setFrequency_audible [OF r, of s] assms show ?thesis
    by (simp add: playNote_def note_freq_def Let_def)
qed

lemma playNote_menu_valid:
  assumes "0 \<le> n" "n < 12"
  shows "playNote_menu now n s =
           Inr (s\<lparr>currentFreq := c_trunc (note_freq n (isHighOctave s)),
                  currentNote := n,
                  timerAlarm := word_of_int
                    (1000000 div (c_trunc (note_freq n (isHighOctave s)) * SAMPLES)),
                  timerAlarmEnabled := True,
                  lastRatchetToggle := now, ratchetOn := True\<rparr>)"
proof -
  from note_freq_range [OF assms, of "isHighOctave s"]
  have r: "1 \<le> note_freq n (isHighOctave s)" "note_freq n (isHighOctave s) < 8388608"
    by simp_all
  then have "c_trunc (note_freq n (isHighOctave s)) = \<lfloor>note_freq n (isHighOctave s)\<rfloor>"
    by (simp add: c_trunc_def)
  with setFrequency_audible [OF r, of s] assms show ?thesis
    by (simp add: playNote_menu_def note_freq_def Let_def)
qed

lemma period_bounds:
  assumes "261 \<le> f" "f \<le> 987"
  shows "uint (word_of_int (1000000 div (f * SAMPLES)) :: 64 word) = 1000000 div (f * SAMPLES)"
    and "1000000 div (f * SAMPLES) * (f * SAMPLES) \<le> 1000000"
    and "1000000 < (1000000 div (f * SAMPLES) + 1) * (f * SAMPLES)"
    and "3 \<le> 1000000 div (f * SAMPLES)" and "1000000 div (f * SAMPLES) \<le> 14"
proof -
  let ?d = "f * SAMPLES"
  from assms have d: "66816 \<le> ?d" "?d \<le> 252672" by (simp_all add: SAMPLES_def)
  then have pos: "0 < ?d" by simp
  have q: "1000000 div ?d * ?d + 1000000 mod ?d = 1000000" by (rule div_mult_mod_eq)
  have m: "0 \<le> 1000000 mod ?d" "1000000 mod ?d < ?d"
    using pos by simp_all
  show le: "1000000 div ?d * ?d \<le> 1000000" using q m by linarith
  show lt: "1000000 < (1000000 div ?d + 1) * ?d"
    using q m by (simp add: algebra_simps)
  have "1000000 div 252672 \<le> 1000000 div ?d"
    using d pos by (intro zdiv_mono2) simp_all
  then show lo: "3 \<le> 1000000 div ?d" by simp
  have "1000000 div ?d \<le> 1000000 div 66816"
    using d by (intro zdiv_mono2) simp_all
  then show hi: "1000000 div ?d \<le> 14" by simp
  from lo hi show "uint (word_of_int (1000000 div ?d) :: 64 word) = 1000000 div ?d"
    by (simp add: uint64_of_int)
qed


text \<open>
  Claim C3, as the code has it. For every valid note index, \<^verbatim>\<open>playNote\<close> of either edition
  sets the target frequency to the resolved frequency truncated to an integer \<open>f\<close>, records
  the note, and programs the timer, enabled, with the integer quotient of 1,000,000 by
  \<open>f * N\<close> microseconds (\<open>N = 256\<close>). \<open>N\<close> such periods are at most one cycle of \<open>f\<close>:
  \<open>period * f * N \<le> 1,000,000 < (period + 1) * f * N\<close>.
\<close>

theorem playNote_period:
  assumes "0 \<le> n" and "n < 12"
  shows "(\<exists>s'. playNote n s = Inr s'
            \<and> currentFreq s' = c_trunc (note_freq n (isHighOctave s)) \<and> currentNote s' = n
            \<and> timerAlarmEnabled s'
            \<and> uint (timerAlarm s') = 1000000 div (currentFreq s' * SAMPLES)
            \<and> uint (timerAlarm s') * (currentFreq s' * SAMPLES) \<le> 1000000
            \<and> 1000000 < (uint (timerAlarm s') + 1) * (currentFreq s' * SAMPLES))
       \<and> (\<exists>m'. playNote_menu now n m = Inr m'
            \<and> currentFreq m' = c_trunc (note_freq n (isHighOctave m)) \<and> currentNote m' = n
            \<and> timerAlarmEnabled m'
            \<and> uint (timerAlarm m') = 1000000 div (currentFreq m' * SAMPLES)
            \<and> uint (timerAlarm m') * (currentFreq m' * SAMPLES) \<le> 1000000
            \<and> 1000000 < (uint (timerAlarm m') + 1) * (currentFreq m' * SAMPLES))"
proof -
  have s: "261 \<le> c_trunc (note_freq n (isHighOctave s))" "c_trunc (note_freq n (isHighOctave s)) \<le> 987"
    using note_freq_trunc_range [OF assms, of "isHighOctave s"] by simp_all
  have m: "261 \<le> c_trunc (note_freq n (isHighOctave m))" "c_trunc (note_freq n (isHighOctave m)) \<le> 987"
    using note_freq_trunc_range [OF assms, of "isHighOctave m"] by simp_all
  show ?thesis
    using period_bounds(1-3) [OF s] period_bounds(1-3) [OF m]
    by (simp add: playNote_valid [OF assms] playNote_menu_valid [OF assms])
qed

lemma setup_synth_fields:
  "isHighOctave setup_synth = False" "currentFreq setup_synth = 0" "currentNote setup_synth = -1"
  "currentSample setup_synth = 0" "timerAlarm setup_synth = 100"
  by (simp_all add: setup_synth_def setWaveform_def generateWaveforms_def globals_def)

lemma setup_menu_fields:
  "isHighOctave setup_menu = False" "currentFreq setup_menu = 0" "currentNote setup_menu = -1"
  "currentSample setup_menu = 0" "timerAlarm setup_menu = 100" "choppiness setup_menu = 1"
  by (simp_all add: setup_menu_def generateWaveforms_def globals_menu_def)

lemma note_0_low: "c_trunc (note_freq 0 False) = 261"
  using note_freq_low_trunc [of 0] by simp

lemma note_0_high: "c_trunc (note_freq 0 True) = 523"
  using note_freq_high_trunc [of 0] by simp

lemma playNote_0_setup:
  "playNote 0 setup_synth =
     Inr (setup_synth\<lparr>currentFreq := 261, currentNote := 0, timerAlarm := 14,
            timerAlarmEnabled := True\<rparr>)"
  by (simp add: playNote_valid setup_synth_fields note_0_low SAMPLES_def)

text \<open>
  The period is not exactly \<open>1,000,000 / (frequency * N)\<close>: for C4 in the low octave the
  frequency 261.63 Hz is truncated to 261 and the quotient 14.96 to 14, so 256 ticks take
  3584 microseconds where a cycle lasts 3822.
\<close>

theorem playNote_period_counterexample:
  "currentFreq (projr (playNote 0 setup_synth)) = 261
   \<and> timerAlarm (projr (playNote 0 setup_synth)) = 14
   \<and> uint (timerAlarm (projr (playNote 0 setup_synth)))
        * (currentFreq (projr (playNote 0 setup_synth)) * SAMPLES) \<noteq> 1000000
   \<and> rat_of_int (uint (timerAlarm (projr (playNote 0 setup_synth))))
        \<noteq> 1000000 / (note_freq 0 (isHighOctave setup_synth) * rat_of_int SAMPLES)"
  by (simp add: playNote_0_setup setup_synth_fields SAMPLES_def note_freq_def
      NOTE_FREQS_OCT4_values)

theorem playNote_period_witness:
  "(0::int) \<le> 9 \<and> (9::int) < 12
   \<and> (\<exists>s'. playNote 9 setup_synth = Inr s' \<and> currentFreq s' = 440 \<and> currentNote s' = 9
          \<and> uint (timerAlarm s') = 8 \<and> 8 * (440 * 256) \<le> (1000000::int)
          \<and> (1000000::int) < 9 * (440 * 256))
   \<and> (\<exists>m'. playNote_menu 7 9 (setup_menu\<lparr>isHighOctave := True\<rparr>) = Inr m'
          \<and> currentFreq m' = 880 \<and> uint (timerAlarm m') = 4)"
proof -
  have a: "c_trunc (note_freq 9 False) = 440" using note_freq_low_trunc [of 9] by simp
  have b: "c_trunc (note_freq 9 True) = 880" using note_freq_high_trunc [of 9] by simp
  show ?thesis
    using playNote_period [of 9 setup_synth 7 "setup_menu\<lparr>isHighOctave := True\<rparr>"]
    by (auto simp add: setup_synth_fields a b SAMPLES_def)
qed

subsection \<open>The first tick of a new note\<close>

lemma ratchetPeriod_levels:
  "ratchetPeriod 2 = 125" "ratchetPeriod 4 = 62" "ratchetPeriod 8 = 31"
  by (simp_all add: ratchetPeriod_def RATCHET_BASE_HZ_def signed_divide_int_def)

lemma onTimer_sounding:
  assumes "0 < currentFreq t" "0 \<le> currentSample t" "currentSample t < SAMPLES"
  shows "onTimer t =
     Inr (t\<lparr>dac := word_of_int
                     ((uint (waveform_table t ! nat (currentSample t)) * uint (volume t)) sdiv 255)
                   # dac t,
             currentSample := (currentSample t + 1) smod SAMPLES\<rparr>)"
  using assms by (simp add: onTimer_def Let_def)

lemma onTimer_after_playNote:
  assumes n: "0 \<le> n" "n < 12" and ph: "0 \<le> currentSample s" "currentSample s < SAMPLES"
    and play: "playNote n s = Inr s'"
  shows "onTimer s' =
     Inr (s'\<lparr>dac := word_of_int
                     ((uint (waveform_table s ! nat (currentSample s)) * uint (volume s)) sdiv 255)
                   # dac s,
             currentSample := (currentSample s + 1) smod SAMPLES\<rparr>)"
proof -
  have f: "0 < c_trunc (note_freq n (isHighOctave s))"
    using note_freq_trunc_range [OF n, of "isHighOctave s"] by simp
  from play have s': "s' = s\<lparr>currentFreq := c_trunc (note_freq n (isHighOctave s)),
                  currentNote := n,
                  timerAlarm := word_of_int
                    (1000000 div (c_trunc (note_freq n (isHighOctave s)) * SAMPLES)),
                  timerAlarmEnabled := True\<rparr>"
    by (simp add: playNote_valid [OF n])
  have "0 < currentFreq s'" "currentSample s' = currentSample s" "volume s' = volume s"
    "dac s' = dac s" "waveform_table s' = waveform_table s"
    using f by (simp_all add: s' waveform_table_def split: WaveType.split)
  with ph onTimer_sounding [of s'] show ?thesis by simp
qed


lemma ratchetOn_True_idem: "ratchetOn t \<Longrightarrow> t\<lparr>ratchetOn := True\<rparr> = t"
proof -
  assume "ratchetOn t"
  then have "t\<lparr>ratchetOn := True\<rparr> = t\<lparr>ratchetOn := ratchetOn t\<rparr>" by simp
  then show ?thesis by simp
qed

lemma gate_stays_open:
  assumes "choppiness t \<in> {1, 2, 4, 8}" and "ratchetOn t" and "lastRatchetToggle t = now"
  shows "(if choppiness t > 1 then
           (if 2 ^ 31 \<le> RATCHET_BASE_HZ * (choppiness t sdiv 2) then Inl Overflow
            else if now - lastRatchetToggle t \<ge> word_of_int (ratchetPeriod (choppiness t)) then
              Inr (t\<lparr>ratchetOn := \<not> ratchetOn t, lastRatchetToggle := now\<rparr>)
            else Inr t)
         else Inr (t\<lparr>ratchetOn := True\<rparr>)) = Inr t"
proof (cases "choppiness t = 1")
  case True
  with assms(2) show ?thesis by (simp add: ratchetOn_True_idem)
next
  case False
  with assms(1) have c: "choppiness t = 2 \<or> choppiness t = 4 \<or> choppiness t = 8" by simp
  then have big: "1 < choppiness t" "choppiness t < 2 ^ 29" by auto
  from c have "\<not> (0 :: 32 word) \<ge> word_of_int (ratchetPeriod (choppiness t))"
    by (auto simp add: ratchetPeriod_levels)
  with big ratchet_no_overflow [OF big] assms(3) show ?thesis by simp
qed

lemma onTimer_menu_sounding:
  assumes "0 < currentFreq t" "0 \<le> currentSample t" "currentSample t < SAMPLES"
    and "choppiness t \<in> {1, 2, 4, 8}" and "ratchetOn t" and "lastRatchetToggle t = now"
  shows "onTimer_menu now t =
     Inr (t\<lparr>dac := word_of_int
                     ((uint (waveform_table t ! nat (currentSample t)) * uint (volume t)) sdiv 255)
                   # dac t,
             currentSample := (currentSample t + 1) smod SAMPLES\<rparr>)"
  unfolding onTimer_menu_def gate_stays_open [OF assms(4-6)]
  using assms(1-3,5) by (simp add: Let_def)

lemma onTimer_menu_after_playNote:
  assumes n: "0 \<le> n" "n < 12" and ph: "0 \<le> currentSample s" "currentSample s < SAMPLES"
    and chop: "choppiness s \<in> {1, 2, 4, 8}"
    and play: "playNote_menu now n s = Inr s'"
  shows "onTimer_menu now s' =
     Inr (s'\<lparr>dac := word_of_int
                     ((uint (waveform_table s ! nat (currentSample s)) * uint (volume s)) sdiv 255)
                   # dac s,
             currentSample := (currentSample s + 1) smod SAMPLES\<rparr>)"
proof -
  have f: "0 < c_trunc (note_freq n (isHighOctave s))"
    using note_freq_trunc_range [OF n, of "isHighOctave s"] by simp
  from play have s': "s' = s\<lparr>currentFreq := c_trunc (note_freq n (isHighOctave s)),
                  currentNote := n,
                  timerAlarm := word_of_int
                    (1000000 div (c_trunc (note_freq n (isHighOctave s)) * SAMPLES)),
                  timerAlarmEnabled := True,
                  lastRatchetToggle := now, ratchetOn := True\<rparr>"
    by (simp add: playNote_menu_valid [OF n])
  have "0 < currentFreq s'" "currentSample s' = currentSample s" "volume s' = volume s"
    "dac s' = dac s" "waveform_table s' = waveform_table s" "choppiness s' = choppiness s"
    "ratchetOn s'" "lastRatchetToggle s' = now"
    using f by (simp_all add: s' waveform_table_def split: WaveType.split)
  with ph chop onTimer_menu_sounding [of s' now] show ?thesis by simp
qed


text \<open>
  Claim C10. Neither \<^verbatim>\<open>playNote\<close> nor \<^verbatim>\<open>stopNote\<close> changes the phase index
  \<open>currentSample\<close>, in either edition, and neither does a whole pass of the main loop: only
  the timer interrupt moves it. So the first tick after a note is started emits the table
  entry at the phase the previous playback left, scaled by the volume, and advances from
  there, not from phase 0.
\<close>

theorem phase_moved_only_by_onTimer:
  "currentSample (stopNote s) = currentSample s
   \<and> (playNote n s = Inr s' \<longrightarrow> currentSample s' = currentSample s)
   \<and> (playNote_menu now n m = Inr m' \<longrightarrow> currentSample m' = currentSample m)
   \<and> (loop p w = Inr w' \<longrightarrow> currentSample w' = currentSample w)
   \<and> (loop_menu q m = Inr m2 \<longrightarrow> currentSample m2 = currentSample m)
   \<and> (0 \<le> n \<and> n < 12 \<and> 0 \<le> currentSample s \<and> currentSample s < SAMPLES
        \<and> playNote n s = Inr s' \<longrightarrow>
      onTimer s' =
        Inr (s'\<lparr>dac := word_of_int
                ((uint (waveform_table s ! nat (currentSample s)) * uint (volume s)) sdiv 255)
                # dac s,
              currentSample := (currentSample s + 1) smod SAMPLES\<rparr>))
   \<and> (0 \<le> n \<and> n < 12 \<and> 0 \<le> currentSample m \<and> currentSample m < SAMPLES
        \<and> choppiness m \<in> {1, 2, 4, 8} \<and> playNote_menu now n m = Inr m' \<longrightarrow>
      onTimer_menu now m' =
        Inr (m'\<lparr>dac := word_of_int
                ((uint (waveform_table m ! nat (currentSample m)) * uint (volume m)) sdiv 255)
                # dac m,
              currentSample := (currentSample m + 1) smod SAMPLES\<rparr>))"
proof (intro conjI impI)
  show "currentSample (stopNote s) = currentSample s"
    by (rule stopNote_currentSample)
  show "currentSample s' = currentSample s" if "playNote n s = Inr s'"
    using that by (rule playNote_currentSample)
  show "currentSample m' = currentSample m" if "playNote_menu now n m = Inr m'"
    using that by (rule playNote_menu_currentSample)
  show "currentSample w' = currentSample w" if "loop p w = Inr w'"
    using that by (rule loop_currentSample)
  show "currentSample m2 = currentSample m" if "loop_menu q m = Inr m2"
    using that by (rule loop_menu_currentSample)
  show "onTimer s' =
        Inr (s'\<lparr>dac := word_of_int
                ((uint (waveform_table s ! nat (currentSample s)) * uint (volume s)) sdiv 255)
                # dac s,
              currentSample := (currentSample s + 1) smod SAMPLES\<rparr>)"
    if "0 \<le> n \<and> n < 12 \<and> 0 \<le> currentSample s \<and> currentSample s < SAMPLES
        \<and> playNote n s = Inr s'"
    using that onTimer_after_playNote [of n s s'] by blast
  show "onTimer_menu now m' =
        Inr (m'\<lparr>dac := word_of_int
                ((uint (waveform_table m ! nat (currentSample m)) * uint (volume m)) sdiv 255)
                # dac m,
              currentSample := (currentSample m + 1) smod SAMPLES\<rparr>)"
    if "0 \<le> n \<and> n < 12 \<and> 0 \<le> currentSample m \<and> currentSample m < SAMPLES
        \<and> choppiness m \<in> {1, 2, 4, 8} \<and> playNote_menu now n m = Inr m'"
    using that onTimer_menu_after_playNote [of n m now m'] by blast
qed


lemma note_9: "c_trunc (note_freq 9 False) = 440" "c_trunc (note_freq 9 True) = 880"
  using note_freq_low_trunc [of 9] note_freq_high_trunc [of 9] by simp_all

lemma mid_cycle_playNote:
  "playNote 9 mid_cycle =
     Inr (mid_cycle\<lparr>currentFreq := 440, currentNote := 9, timerAlarm := 8,
            timerAlarmEnabled := True\<rparr>)"
  by (simp add: playNote_valid mid_cycle_def globals_def note_9 SAMPLES_def)

lemma mid_cycle_menu_playNote:
  "playNote_menu now 9 mid_cycle_menu =
     Inr (mid_cycle_menu\<lparr>currentFreq := 440, currentNote := 9, timerAlarm := 8,
            timerAlarmEnabled := True, lastRatchetToggle := now, ratchetOn := True\<rparr>)"
  by (simp add: playNote_menu_valid mid_cycle_menu_def globals_menu_def note_9 SAMPLES_def)

lemma mid_cycle_loop:
  "loop (idle_switch_pins\<lparr>KEY_PINS := (\<lambda>i. i = 9)\<rparr>) mid_cycle =
     Inr (mid_cycle\<lparr>currentFreq := 440, currentNote := 9, timerAlarm := 8,
            timerAlarmEnabled := True\<rparr>)"
  by (simp add: loop_def readEncoder_def readWaveformButtons_def checkButton_def
      scanKeyboard_def scanKeyboard_with_def playNote_valid idle_switch_pins_def mid_cycle_def
      globals_def note_9 SAMPLES_def Let_def)

lemma mid_cycle_menu_loop:
  "loop_menu (idle_pins\<lparr>KEY_PINS := (\<lambda>i. i = 9), millis_scan := 1000\<rparr>) mid_cycle_menu =
     Inr (mid_cycle_menu\<lparr>currentFreq := 440, currentNote := 9, timerAlarm := 8,
            timerAlarmEnabled := True, lastRatchetToggle := 1000, ratchetOn := True\<rparr>)"
  by (simp add: loop_menu_def readEncoder_menu_def readEncoderButton_def
      scanKeyboard_menu_def scanKeyboard_with_def playNote_menu_valid idle_pins_def
      mid_cycle_menu_def globals_menu_def note_9 SAMPLES_def Let_def)

theorem phase_moved_only_by_onTimer_witness:
  "playNote 9 mid_cycle
     = Inr (mid_cycle\<lparr>currentFreq := 440, currentNote := 9, timerAlarm := 8,
              timerAlarmEnabled := True\<rparr>)
   \<and> currentSample mid_cycle = 37
   \<and> onTimer (mid_cycle\<lparr>currentFreq := 440, currentNote := 9, timerAlarm := 8,
                 timerAlarmEnabled := True\<rparr>)
     = Inr (mid_cycle\<lparr>currentSample := 38, currentFreq := 440, currentNote := 9, timerAlarm := 8,
              timerAlarmEnabled := True, dac := [200]\<rparr>)
   \<and> playNote_menu 1000 9 mid_cycle_menu
     = Inr (mid_cycle_menu\<lparr>currentFreq := 440, currentNote := 9, timerAlarm := 8,
              timerAlarmEnabled := True, lastRatchetToggle := 1000, ratchetOn := True\<rparr>)
   \<and> onTimer_menu 1000 (mid_cycle_menu\<lparr>currentFreq := 440, currentNote := 9, timerAlarm := 8,
              timerAlarmEnabled := True, lastRatchetToggle := 1000, ratchetOn := True\<rparr>)
     = Inr (mid_cycle_menu\<lparr>currentSample := 38, currentFreq := 440, currentNote := 9,
              timerAlarm := 8, timerAlarmEnabled := True, dac := [200],
              lastRatchetToggle := 1000, ratchetOn := True\<rparr>)
   \<and> currentSample (projr (loop (idle_switch_pins\<lparr>KEY_PINS := (\<lambda>i. i = 9)\<rparr>) mid_cycle)) = 37
   \<and> currentSample (projr (loop_menu (idle_pins\<lparr>KEY_PINS := (\<lambda>i. i = 9), millis_scan := 1000\<rparr>)
        mid_cycle_menu)) = 37"
  using phase_moved_only_by_onTimer [of mid_cycle 9
      "mid_cycle\<lparr>currentFreq := 440, currentNote := 9, timerAlarm := 8, timerAlarmEnabled := True\<rparr>"
      1000 mid_cycle_menu
      "mid_cycle_menu\<lparr>currentFreq := 440, currentNote := 9, timerAlarm := 8,
              timerAlarmEnabled := True, lastRatchetToggle := 1000, ratchetOn := True\<rparr>"
      "idle_switch_pins\<lparr>KEY_PINS := (\<lambda>i. i = 9)\<rparr>" mid_cycle
      "projr (loop (idle_switch_pins\<lparr>KEY_PINS := (\<lambda>i. i = 9)\<rparr>) mid_cycle)"
      "idle_pins\<lparr>KEY_PINS := (\<lambda>i. i = 9), millis_scan := 1000\<rparr>"
      "projr (loop_menu (idle_pins\<lparr>KEY_PINS := (\<lambda>i. i = 9), millis_scan := 1000\<rparr>)
        mid_cycle_menu)"]
  by (simp add: mid_cycle_playNote mid_cycle_menu_playNote mid_cycle_loop mid_cycle_menu_loop
      SAMPLES_def)
     (simp add: mid_cycle_def mid_cycle_menu_def globals_def globals_menu_def waveform_table_def
        signed_divide_int_def signed_modulo_int_def)

subsection \<open>The ratchet period\<close>

lemma gate_step:
  assumes run: "onTimer_menu now m = Inr m'" and c: "1 < choppiness m" "choppiness m < 2 ^ 29"
  shows "ratchetOn m' =
           (if word_of_int (ratchetPeriod (choppiness m)) \<le> now - lastRatchetToggle m
            then \<not> ratchetOn m else ratchetOn m)
         \<and> lastRatchetToggle m' =
           (if word_of_int (ratchetPeriod (choppiness m)) \<le> now - lastRatchetToggle m
            then now else lastRatchetToggle m)"
  using run c ratchet_no_overflow [OF c]
  by (auto simp add: onTimer_menu_def Let_def split: if_splits)

text \<open>
  Claim C4, as the code has it. In the menu edition, with base rate 8 Hz, the ratchet period
  computed by the timer interrupt is the integer quotient \<open>1000 / (8 * (choppiness / 2))\<close>
  milliseconds: 125 for choppiness 2 and 31 for choppiness 8. A tick toggles the gate exactly
  when at least that many milliseconds have passed since the last toggle.
\<close>

theorem ratchet_period:
  "ratchetPeriod 2 = 125 \<and> ratchetPeriod 8 = 31
   \<and> (choppiness m = 2 \<and> onTimer_menu now m = Inr m' \<longrightarrow>
        ratchetOn m' = (if 125 \<le> unat (now - lastRatchetToggle m)
                        then \<not> ratchetOn m else ratchetOn m))
   \<and> (choppiness m = 8 \<and> onTimer_menu now m = Inr m' \<longrightarrow>
        ratchetOn m' = (if 31 \<le> unat (now - lastRatchetToggle m)
                        then \<not> ratchetOn m else ratchetOn m))"
proof (intro conjI impI)
  show "ratchetPeriod 2 = 125" "ratchetPeriod 8 = 31"
    by (simp_all add: ratchetPeriod_levels)
  show "ratchetOn m' = (if 125 \<le> unat (now - lastRatchetToggle m)
                        then \<not> ratchetOn m else ratchetOn m)"
    if "choppiness m = 2 \<and> onTimer_menu now m = Inr m'"
    using that gate_step [of now m m']
    by (simp add: ratchetPeriod_levels word_le_nat_alt)
  show "ratchetOn m' = (if 31 \<le> unat (now - lastRatchetToggle m)
                        then \<not> ratchetOn m else ratchetOn m)"
    if "choppiness m = 8 \<and> onTimer_menu now m = Inr m'"
    using that gate_step [of now m m']
    by (simp add: ratchetPeriod_levels word_le_nat_alt)
qed

lemma gate_closes_at_31:
  "onTimer_menu 31 (globals_menu\<lparr>choppiness := 8\<rparr>)
     = Inr (globals_menu\<lparr>dac := [0], choppiness := 8, lastRatchetToggle := 31, ratchetOn := False\<rparr>)"
  by (simp add: onTimer_menu_def globals_menu_def ratchetPeriod_levels RATCHET_BASE_HZ_def
      signed_divide_int_def)

lemma gate_closes_at_125:
  "onTimer_menu 125 (globals_menu\<lparr>choppiness := 2\<rparr>)
     = Inr (globals_menu\<lparr>dac := [0], choppiness := 2, lastRatchetToggle := 125, ratchetOn := False\<rparr>)"
  by (simp add: onTimer_menu_def globals_menu_def ratchetPeriod_levels RATCHET_BASE_HZ_def
      signed_divide_int_def)

text \<open>
  For choppiness 8 the computed period is 31 ms, not 31.25 ms: the gate opened at time 0 is
  closed by a tick at time 31.
\<close>

theorem ratchet_period_counterexample:
  "rat_of_int (ratchetPeriod 8) \<noteq> 1000 / (rat_of_int RATCHET_BASE_HZ * (8 / 2))
   \<and> rat_of_int (ratchetPeriod 8) \<noteq> 31.25
   \<and> lastRatchetToggle (globals_menu\<lparr>choppiness := 8\<rparr>) = 0
   \<and> ratchetOn (globals_menu\<lparr>choppiness := 8\<rparr>)
   \<and> \<not> ratchetOn (projr (onTimer_menu 31 (globals_menu\<lparr>choppiness := 8\<rparr>)))"
  by (simp add: gate_closes_at_31 ratchetPeriod_levels RATCHET_BASE_HZ_def)
     (simp add: globals_menu_def)

theorem ratchet_period_witness:
  "choppiness (globals_menu\<lparr>choppiness := 2\<rparr>) = 2
   \<and> onTimer_menu 125 (globals_menu\<lparr>choppiness := 2\<rparr>)
       = Inr (globals_menu\<lparr>dac := [0], choppiness := 2, lastRatchetToggle := 125, ratchetOn := False\<rparr>)
   \<and> 125 \<le> unat ((125 :: 32 word) - lastRatchetToggle (globals_menu\<lparr>choppiness := 2\<rparr>))
   \<and> choppiness (globals_menu\<lparr>choppiness := 8\<rparr>) = 8
   \<and> onTimer_menu 31 (globals_menu\<lparr>choppiness := 8\<rparr>)
       = Inr (globals_menu\<lparr>dac := [0], choppiness := 8, lastRatchetToggle := 31, ratchetOn := False\<rparr>)
   \<and> 31 \<le> unat ((31 :: 32 word) - lastRatchetToggle (globals_menu\<lparr>choppiness := 8\<rparr>))
   \<and> ratchetOn (globals_menu\<lparr>choppiness := 2\<rparr>)
   \<and> \<not> ratchetOn (globals_menu\<lparr>dac := [0], choppiness := 2, lastRatchetToggle := 125, ratchetOn := False\<rparr>)"
  using ratchet_period [of "globals_menu\<lparr>choppiness := 2\<rparr>" 125
      "globals_menu\<lparr>dac := [0], choppiness := 2, lastRatchetToggle := 125, ratchetOn := False\<rparr>"]
    ratchet_period [of "globals_menu\<lparr>choppiness := 8\<rparr>" 31
      "globals_menu\<lparr>dac := [0], choppiness := 8, lastRatchetToggle := 31, ratchetOn := False\<rparr>"]
  by (simp add: gate_closes_at_31 gate_closes_at_125) (simp add: globals_menu_def)

subsection \<open>Toggling the octave while a note sounds\<close>

lemma octave_relation:
  assumes "0 \<le> n" "n < 12"
  shows "c_trunc (note_freq n True) = 2 * c_trunc (note_freq n False)
          \<or> c_trunc (note_freq n True) = 2 * c_trunc (note_freq n False) + 1"
    and "c_trunc (note_freq n False) = c_trunc (note_freq n True) div 2"
  using valid_note_cases [OF assms] note_freq_low_trunc [OF assms] note_freq_high_trunc [OF assms]
  by auto

lemma adjust_octave_sounding:
  assumes menu: "currentMenu m = MENU_OCTAVE" and n: "0 \<le> currentNote m" "currentNote m < 12"
  shows "adjustCurrentSetting now d m =
     Inr (m\<lparr>currentFreq := c_trunc (note_freq (currentNote m) (\<not> isHighOctave m)),
            isHighOctave := \<not> isHighOctave m,
            currentNote := currentNote m,
            timerAlarm := word_of_int
              (1000000 div (c_trunc (note_freq (currentNote m) (\<not> isHighOctave m)) * SAMPLES)),
            timerAlarmEnabled := True,
            lastRatchetToggle := now, ratchetOn := True\<rparr>)"
proof -
  let ?m1 = "m\<lparr>isHighOctave := \<not> isHighOctave m\<rparr>"
  have "0 \<le> currentNote ?m1" "currentNote ?m1 < 12" "currentNote ?m1 \<noteq> -1"
    using n by simp_all
  then show ?thesis
    using menu by (simp add: adjustCurrentSetting_def Let_def playNote_menu_valid)
qed

text \<open>
  Claim C1, as the code has it. In the menu edition, toggling the octave on the octave screen
  while a note sounds calls \<^verbatim>\<open>playNote\<close> at once with the current note, without a key
  press: the octave flag is flipped, the note identity is kept, and the target frequency
  becomes the newly resolved frequency truncated to an integer, with the timer reprogrammed
  for it. Against the prior value \<open>f\<close>, programmed for the same note under the old flag, the
  new one is \<open>2 * f\<close> or \<open>2 * f + 1\<close> when going up and \<open>f div 2\<close> when going down.
\<close>

theorem octave_toggle_reapplies:
  assumes "currentMenu m = MENU_OCTAVE" and "0 \<le> currentNote m" and "currentNote m < 12"
  shows "\<exists>m'. adjustCurrentSetting now d m = Inr m'
           \<and> isHighOctave m' = (\<not> isHighOctave m) \<and> currentNote m' = currentNote m
           \<and> currentFreq m' = c_trunc (note_freq (currentNote m) (isHighOctave m'))
           \<and> uint (timerAlarm m') = 1000000 div (currentFreq m' * SAMPLES)
           \<and> (currentFreq m = c_trunc (note_freq (currentNote m) (isHighOctave m)) \<longrightarrow>
                (if isHighOctave m then currentFreq m' = currentFreq m div 2
                 else currentFreq m' = 2 * currentFreq m \<or> currentFreq m' = 2 * currentFreq m + 1))"
proof -
  let ?f = "c_trunc (note_freq (currentNote m) (\<not> isHighOctave m))"
  have r: "261 \<le> ?f" "?f \<le> 987"
    using note_freq_trunc_range [OF assms(2,3), of "\<not> isHighOctave m"] by simp_all
  show ?thesis
  proof (cases "isHighOctave m")
    case True
    with period_bounds(1) [OF r] octave_relation(2) [OF assms(2,3)] show ?thesis
      by (simp add: adjust_octave_sounding [OF assms])
  next
    case False
    with period_bounds(1) [OF r] octave_relation(1) [OF assms(2,3)] show ?thesis
      by (simp add: adjust_octave_sounding [OF assms])
  qed
qed


text \<open>
  In the menu edition every run from \<^verbatim>\<open>setup\<close> keeps the target frequency in tune with
  the note identity and the octave flag, so the prior value above is always the one
  programmed for the sounding note.
\<close>

lemma tuned_stopNote: "tuned (stopNote s)"
  by (simp add: tuned_def stopNote_def)

lemma tuned_playNote_menu: "playNote_menu now n s = Inr s' \<Longrightarrow> tuned s'"
proof (cases "0 \<le> n \<and> n < 12")
  case True
  assume "playNote_menu now n s = Inr s'"
  with True show ?thesis by (auto simp add: playNote_menu_valid tuned_def)
next
  case False
  assume "playNote_menu now n s = Inr s'"
  with False have "s' = stopNote s" by (auto simp add: playNote_menu_def)
  then show ?thesis by (simp add: tuned_stopNote)
qed

lemma tuned_scanKeyboard_menu: "scanKeyboard_menu p s = Inr s' \<Longrightarrow> tuned s \<Longrightarrow> tuned s'"
  unfolding scanKeyboard_menu_def
  by (rule scanKeyboard_with_preserves [where P = tuned and play = "playNote_menu (millis_scan p)"])
     (simp_all add: tuned_playNote_menu tuned_stopNote)

lemma tuned_adjustCurrentSetting:
  assumes "adjustCurrentSetting now d s = Inr s'" "tuned s"
  shows "tuned s'"
proof (cases "currentMenu s")
  case MENU_WAVEFORM
  with assms show ?thesis
    by (auto simp add: adjustCurrentSetting_def tuned_def Let_def split: if_splits WaveType.splits)
next
  case MENU_OCTAVE
  show ?thesis
  proof (cases "currentNote s = -1")
    case True
    with assms MENU_OCTAVE show ?thesis
      by (auto simp add: adjustCurrentSetting_def tuned_def Let_def)
  next
    case False
    with assms MENU_OCTAVE show ?thesis
      by (auto simp add: adjustCurrentSetting_def Let_def dest: tuned_playNote_menu)
  qed
next
  case MENU_CHOPPINESS
  with assms show ?thesis
    by (auto simp add: adjustCurrentSetting_def tuned_def split: if_splits)
qed

lemma tuned_readEncoder_menu:
  "readEncoder_menu p s = Inr s' \<Longrightarrow> tuned s \<Longrightarrow> tuned s'"
  by (cases "currentMode s")
     (auto simp add: readEncoder_menu_def Let_def tuned_def [of "_\<lparr>lastEncoderCLK := _\<rparr>"]
        tuned_def [of "_\<lparr>volume := _\<rparr>"] tuned_def [of "_\<lparr>currentMenu := _\<rparr>"] tuned_def [of s]
        split: if_splits sum.splits dest!: tuned_adjustCurrentSetting [unfolded tuned_def])


lemma tuned_readEncoderButton: "tuned (readEncoderButton p s) = tuned s"
  by (cases "currentMode s")
     (simp_all add: readEncoderButton_def handleButtonPress_def tuned_def Let_def)

lemma tuned_loop_menu:
  assumes "loop_menu p s = Inr s'" and "tuned s"
  shows "tuned s'"
proof -
  from assms(1) obtain t where t: "readEncoder_menu p s = Inr t"
    "scanKeyboard_menu p (readEncoderButton p t) = Inr s'"
    by (auto simp add: loop_menu_def split: sum.splits)
  from t(1) assms(2) have "tuned t" by (rule tuned_readEncoder_menu)
  then have "tuned (readEncoderButton p t)" by (simp add: tuned_readEncoderButton)
  with t(2) show ?thesis by (rule tuned_scanKeyboard_menu)
qed

lemma tuned_onTimer_menu: "onTimer_menu now s = Inr s' \<Longrightarrow> tuned s \<Longrightarrow> tuned s'"
  by (auto simp add: onTimer_menu_def Let_def tuned_def split: if_splits sum.splits)

lemma tuned_run_menu: "run_menu es s = Inr s' \<Longrightarrow> tuned s \<Longrightarrow> tuned s'"
proof (induction es arbitrary: s)
  case Nil
  then show ?case by simp
next
  case (Cons e es)
  show ?case
  proof (cases e)
    case (MenuTimer now)
    with Cons.prems obtain t where t: "onTimer_menu now s = Inr t" "run_menu es t = Inr s'"
      by (auto split: sum.splits)
    from t(1) Cons.prems(2) have "tuned t" by (rule tuned_onTimer_menu)
    with Cons.IH t(2) show ?thesis by blast
  next
    case (MenuLoop p)
    with Cons.prems obtain t where t: "loop_menu p s = Inr t" "run_menu es t = Inr s'"
      by (auto split: sum.splits)
    from t(1) Cons.prems(2) have "tuned t" by (rule tuned_loop_menu)
    with Cons.IH t(2) show ?thesis by blast
  qed
qed

lemma tuned_setup_menu: "tuned setup_menu"
  by (simp add: tuned_def setup_menu_fields)

lemma setup_menu_C4:
  "playNote_menu 0 0 (setup_menu\<lparr>currentMenu := MENU_OCTAVE\<rparr>) =
     Inr (setup_menu\<lparr>currentFreq := 261, currentNote := 0, timerAlarm := 14,
            timerAlarmEnabled := True, currentMenu := MENU_OCTAVE, lastRatchetToggle := 0,
            ratchetOn := True\<rparr>)"
  by (simp add: playNote_menu_valid setup_menu_fields note_0_low SAMPLES_def)

lemma setup_menu_C4_toggled:
  "adjustCurrentSetting 40 1
     (setup_menu\<lparr>currentFreq := 261, currentNote := 0, timerAlarm := 14,
        timerAlarmEnabled := True, currentMenu := MENU_OCTAVE, lastRatchetToggle := 0,
        ratchetOn := True\<rparr>) =
     Inr (setup_menu\<lparr>currentFreq := 523, isHighOctave := True, currentNote := 0, timerAlarm := 7,
            timerAlarmEnabled := True, currentMenu := MENU_OCTAVE, lastRatchetToggle := 40,
            ratchetOn := True\<rparr>)"
  by (simp add: adjust_octave_sounding setup_menu_fields note_0_high SAMPLES_def)

text \<open>
  The switch edition reads the octave switch on every pass of the loop but calls
  \<^verbatim>\<open>playNote\<close> only for a key other than the sounding one: with C4 held, flipping the
  switch leaves 261 Hz programmed.
\<close>

lemma switch_edition_octave_kept:
  "run_switch octave_flip_session setup_synth =
   Inr (setup_synth\<lparr>currentFreq := 261, isHighOctave := True, currentNote := 0,
          timerAlarm := 14, timerAlarmEnabled := True\<rparr>)"
  by (simp add: loop_def readEncoder_def readWaveformButtons_def checkButton_def
      scanKeyboard_def scanKeyboard_with_def playNote_valid idle_switch_pins_def
      octave_flip_session_def note_0_low SAMPLES_def Let_def setup_synth_def setWaveform_def
      generateWaveforms_def globals_def)

text \<open>
  C4 sounding at 261 Hz in the menu edition becomes 523 Hz, not 522, when the octave is toggled
  up; in the switch edition it stays at 261 Hz.
\<close>

theorem octave_toggle_counterexample:
  "playNote_menu 0 0 (setup_menu\<lparr>currentMenu := MENU_OCTAVE\<rparr>) =
     Inr (setup_menu\<lparr>currentFreq := 261, currentNote := 0, timerAlarm := 14,
            timerAlarmEnabled := True, currentMenu := MENU_OCTAVE, lastRatchetToggle := 0,
            ratchetOn := True\<rparr>)
   \<and> currentFreq (projr (adjustCurrentSetting 40 1
         (setup_menu\<lparr>currentFreq := 261, currentNote := 0, timerAlarm := 14,
            timerAlarmEnabled := True, currentMenu := MENU_OCTAVE, lastRatchetToggle := 0,
            ratchetOn := True\<rparr>))) = 523
   \<and> currentFreq (projr (adjustCurrentSetting 40 1
         (setup_menu\<lparr>currentFreq := 261, currentNote := 0, timerAlarm := 14,
            timerAlarmEnabled := True, currentMenu := MENU_OCTAVE, lastRatchetToggle := 0,
            ratchetOn := True\<rparr>)))
       \<noteq> 2 * currentFreq
         (setup_menu\<lparr>currentFreq := 261, currentNote := 0, timerAlarm := 14,
            timerAlarmEnabled := True, currentMenu := MENU_OCTAVE, lastRatchetToggle := 0,
            ratchetOn := True\<rparr>)
   \<and> currentFreq (projr (run_switch octave_flip_session setup_synth)) = 261
   \<and> isHighOctave (projr (run_switch octave_flip_session setup_synth))"
  by (simp only: setup_menu_C4 setup_menu_C4_toggled switch_edition_octave_kept) simp

theorem octave_toggle_reapplies_witness:
  "currentMenu (setup_menu\<lparr>currentFreq := 261, currentNote := 0, timerAlarm := 14,
        timerAlarmEnabled := True, currentMenu := MENU_OCTAVE, lastRatchetToggle := 0,
        ratchetOn := True\<rparr>) = MENU_OCTAVE
   \<and> (\<exists>m'. adjustCurrentSetting 40 1
         (setup_menu\<lparr>currentFreq := 261, currentNote := 0, timerAlarm := 14,
            timerAlarmEnabled := True, currentMenu := MENU_OCTAVE, lastRatchetToggle := 0,
            ratchetOn := True\<rparr>) = Inr m'
        \<and> isHighOctave m' \<and> currentNote m' = 0 \<and> currentFreq m' = 523
        \<and> uint (timerAlarm m') = 7 \<and> currentFreq m' = 2 * 261 + 1)"
  using octave_toggle_reapplies [of "setup_menu\<lparr>currentFreq := 261, currentNote := 0,
        timerAlarm := 14, timerAlarmEnabled := True, currentMenu := MENU_OCTAVE,
        lastRatchetToggle := 0, ratchetOn := True\<rparr>" 40 1]
  by (simp add: setup_menu_C4_toggled setup_menu_fields note_0_low note_0_high)

subsection \<open>The sine table\<close>

lemma sineWave_generate:
  "length (sineWave s) = 256 \<Longrightarrow> k < 256 \<Longrightarrow>
   sineWave (generateWaveforms s) ! k = sine_sample (int k)"
  by (simp add: generateWaveforms_def fill_table_nth Let_def)

lemma sine_sample_uint:
  "uint (sine_sample i) = \<lfloor>127.5 + 127.5 * sin (2 * pi * real_of_int i / 256)\<rfloor>"
proof -
  define t where "t = sin (2 * pi * real_of_int i / 256)"
  define v where "v = 127.5 + 127.5 * t"
  have "- 1 \<le> t" "t \<le> 1" by (simp_all add: t_def)
  then have v: "0 \<le> v" "v \<le> 255" unfolding v_def by linarith+
  then have "0 \<le> \<lfloor>v\<rfloor>" "\<lfloor>v\<rfloor> < 256"
    by (simp_all add: floor_less_iff)
  then have "uint (word_of_int \<lfloor>v\<rfloor> :: 8 word) = \<lfloor>v\<rfloor>"
    by (rule uint8_of_int)
  moreover have "sine_sample i = word_of_int (c_trunc v)"
    by (simp add: sine_sample_def v_def t_def SAMPLES_def)
  moreover have "c_trunc v = \<lfloor>v\<rfloor>"
    using v(1) by (simp add: c_trunc_def)
  ultimately show ?thesis by (simp add: v_def t_def)
qed

lemma sqrt2_bounds: "1.412 < sqrt 2" "sqrt 2 < 1.419"
proof -
  show "1.412 < sqrt 2" by (rule real_less_rsqrt) (simp add: power2_eq_square)
  show "sqrt 2 < 1.419" by (rule real_less_lsqrt) (simp_all add: power2_eq_square)
qed

lemma sine_at_32:
  "\<lfloor>127.5 + 127.5 * sin (2 * pi * real_of_int 32 / 256)\<rfloor> = 217"
  "round (127.5 + 127.5 * sin (2 * pi * real_of_int 32 / 256)) = 218"
proof -
  have "2 * pi * real_of_int 32 / 256 = pi / 4" by simp
  then have s: "sin (2 * pi * real_of_int 32 / 256) = sqrt 2 / 2"
    by (simp only: sin_45)
  show "\<lfloor>127.5 + 127.5 * sin (2 * pi * real_of_int 32 / 256)\<rfloor> = 217"
    unfolding s using sqrt2_bounds by (simp add: floor_eq_iff)
  show "round (127.5 + 127.5 * sin (2 * pi * real_of_int 32 / 256)) = 218"
    unfolding s round_def using sqrt2_bounds by (simp add: floor_eq_iff)
qed

lemma floor_pair:
  fixes y :: real
  shows "\<lfloor>127.5 + y\<rfloor> + \<lfloor>127.5 - y\<rfloor> = 254 \<or> \<lfloor>127.5 + y\<rfloor> + \<lfloor>127.5 - y\<rfloor> = 255"
proof -
  define a where "a = \<lfloor>127.5 + y\<rfloor>"
  define b where "b = \<lfloor>127.5 - y\<rfloor>"
  have "real_of_int a \<le> 127.5 + y" "127.5 + y < real_of_int a + 1"
    "real_of_int b \<le> 127.5 - y" "127.5 - y < real_of_int b + 1"
    unfolding a_def b_def by linarith+
  then have "real_of_int a + real_of_int b \<le> 255" "253 < real_of_int a + real_of_int b"
    by linarith+
  then have "real_of_int (a + b) \<le> real_of_int 255" "real_of_int 253 < real_of_int (a + b)"
    by simp_all
  then have "a + b \<le> 255" "253 < a + b"
    by (simp_all only: of_int_le_iff of_int_less_iff)
  then have "a + b = 254 \<or> a + b = 255" by linarith
  then show ?thesis by (simp only: a_def b_def)
qed

lemma sine_half_turn:
  "sin (2 * pi * real_of_int (int i + 128) / 256) = - sin (2 * pi * real_of_int (int i) / 256)"
proof -
  have "2 * pi * real_of_int (int i + 128) / 256 = 2 * pi * real_of_int (int i) / 256 + pi"
    by (simp add: field_simps)
  then show ?thesis by (simp only: sin_periodic_pi)
qed


text \<open>
  Claim C5, as the code has it. For every index \<open>i\<close> below \<open>N = 256\<close> the generated sine
  table holds \<open>127.5 + 127.5 * sin (2 * pi * i / N)\<close> truncated to an integer (the cast rounds
  down, not to nearest). So entry 0 is 127, and entries \<open>i\<close> and \<open>i + N / 2\<close> add up to 254 or
  255 for every \<open>i\<close> below \<open>N / 2\<close>. The sine is the real one: the rounding of the double
  arithmetic is not modelled.
\<close>

theorem sine_table_shape:
  assumes "length (sineWave s) = 256"
  shows "(\<forall>i<256. uint (sineWave (generateWaveforms s) ! i)
            = \<lfloor>127.5 + 127.5 * sin (2 * pi * real i / real_of_int SAMPLES)\<rfloor>)
       \<and> sineWave (generateWaveforms s) ! 0 = 127
       \<and> (\<forall>i<128. uint (sineWave (generateWaveforms s) ! i)
                     + uint (sineWave (generateWaveforms s) ! (i + 128)) = 254
                 \<or> uint (sineWave (generateWaveforms s) ! i)
                     + uint (sineWave (generateWaveforms s) ! (i + 128)) = 255)"
proof -
  let ?t = "sineWave (generateWaveforms s)"
  have val: "uint (?t ! i) = \<lfloor>127.5 + 127.5 * sin (2 * pi * real_of_int (int i) / 256)\<rfloor>"
    if "i < 256" for i
    using that assms by (simp only: sineWave_generate sine_sample_uint)
  have a: "\<forall>i<256. uint (?t ! i)
            = \<lfloor>127.5 + 127.5 * sin (2 * pi * real i / real_of_int SAMPLES)\<rfloor>"
    using val by (simp add: SAMPLES_def)
  have "uint (?t ! 0) = 127" using val [of 0] by simp
  then have b: "?t ! 0 = 127" by (simp add: word_uint_eq_iff)
  have c: "uint (?t ! i) + uint (?t ! (i + 128)) = 254
           \<or> uint (?t ! i) + uint (?t ! (i + 128)) = 255" if "i < 128" for i
  proof -
    from that have "i < 256" "i + 128 < 256" by simp_all
    then have "uint (?t ! i) = \<lfloor>127.5 + 127.5 * sin (2 * pi * real_of_int (int i) / 256)\<rfloor>"
      "uint (?t ! (i + 128))
         = \<lfloor>127.5 + 127.5 * sin (2 * pi * real_of_int (int (i + 128)) / 256)\<rfloor>"
      by (simp_all only: val)
    moreover have "sin (2 * pi * real_of_int (int (i + 128)) / 256)
        = - sin (2 * pi * real_of_int (int i) / 256)"
      using sine_half_turn [of i] by simp
    ultimately have "uint (?t ! i) + uint (?t ! (i + 128))
        = \<lfloor>127.5 + 127.5 * sin (2 * pi * real_of_int (int i) / 256)\<rfloor>
          + \<lfloor>127.5 - 127.5 * sin (2 * pi * real_of_int (int i) / 256)\<rfloor>"
      by simp
    then show ?thesis
      using floor_pair [of "127.5 * sin (2 * pi * real_of_int (int i) / 256)"] by simp
  qed
  from a b c show ?thesis by blast
qed

text \<open>
  Rounding to nearest would give other entries: at index 32 the value is 217.66, stored as
  217 where rounding gives 218; at index 0 it is 127.5, stored as 127.
\<close>

lemma sineWave_setup: "k < 256 \<Longrightarrow> sineWave setup_synth ! k = sine_sample (int k)"
  by (simp add: setup_synth_def setWaveform_def generateWaveforms_def globals_def fill_table_nth
      Let_def)

theorem sine_table_counterexample:
  "uint (sineWave setup_synth ! 32) = 217
   \<and> round (127.5 + 127.5 * sin (2 * pi * real_of_int 32 / 256)) = 218
   \<and> uint (sineWave setup_synth ! 0) = 127
   \<and> round (127.5 + 127.5 * sin (2 * pi * real_of_int 0 / 256)) = 128"
proof -
  have "uint (sineWave setup_synth ! 32) = 217"
    using sine_sample_uint [of 32] sine_at_32(1) by (simp only: sineWave_setup) simp
  moreover have "uint (sineWave setup_synth ! 0) = 127"
    using sine_sample_uint [of 0] by (simp add: sineWave_setup)
  moreover have "round (127.5 + 127.5 * sin (2 * pi * real_of_int 0 / 256)) = (128::int)"
    by (simp add: round_def)
  ultimately show ?thesis using sine_at_32(2) by simp
qed

theorem sine_table_shape_witness:
  "length (sineWave globals) = 256
   \<and> uint (sineWave (generateWaveforms globals) ! 64) = 255
   \<and> sineWave (generateWaveforms globals) ! 0 = 127
   \<and> (uint (sineWave (generateWaveforms globals) ! 64)
        + uint (sineWave (generateWaveforms globals) ! (64 + 128)) = 254
      \<or> uint (sineWave (generateWaveforms globals) ! 64)
        + uint (sineWave (generateWaveforms globals) ! (64 + 128)) = 255)"
proof -
  let ?t = "sineWave (generateWaveforms globals)"
  have h: "length (sineWave globals) = 256" by (simp add: globals_def)
  note shape = sine_table_shape [OF h]
  from shape have vals: "\<forall>i<256. uint (?t ! i)
      = \<lfloor>127.5 + 127.5 * sin (2 * pi * real i / real_of_int SAMPLES)\<rfloor>"
    by (rule conjunct1)
  from shape have zeroth: "?t ! 0 = 127"
    by (rule conjunct2 [THEN conjunct1])
  from shape have prs: "\<forall>i<128. uint (?t ! i) + uint (?t ! (i + 128)) = 254
      \<or> uint (?t ! i) + uint (?t ! (i + 128)) = 255"
    by (rule conjunct2 [THEN conjunct2])
  have "(64::nat) < 256" "(64::nat) < 128" by simp_all
  with vals prs have at64: "uint (?t ! 64)
      = \<lfloor>127.5 + 127.5 * sin (2 * pi * real 64 / real_of_int SAMPLES)\<rfloor>"
    and pair64: "uint (?t ! 64) + uint (?t ! (64 + 128)) = 254
      \<or> uint (?t ! 64) + uint (?t ! (64 + 128)) = 255"
    by blast+
  have "2 * pi * real 64 / real_of_int SAMPLES = pi / 2" by (simp add: SAMPLES_def)
  then have "\<lfloor>127.5 + 127.5 * sin (2 * pi * real 64 / real_of_int SAMPLES)\<rfloor> = 255"
    by (simp only: sin_pi_half) simp
  with at64 have "uint (?t ! 64) = 255" by (simp only:)
  with h zeroth pair64 show ?thesis by (intro conjI)
qed

end
